theory Spec2Isabelle
  imports Complex_Main "HOL-Library.Char_ord" "HOL-Library.List_Lexorder" "HOL-Library.Multiset"
begin

section \<open>The notebook \<open>code/model.ipynb\<close>\<close>

text \<open>
  The program is one notebook: a linear script that reads a table of cars, cleans and
  splits it, tunes three regression pipelines by cross-validated search and compares them.
  The script's own code is embedded cell by cell. What it calls in pandas and
  scikit-learn (version 0.19, as the printed estimators show: \<open>Imputer\<close>,
  \<open>iid=True\<close>, \<open>return_train_score='warn'\<close>) is embedded from the documented
  behaviour of those calls with the arguments the notebook passes, the defaults
  otherwise. Three things are not embedded but taken as parameters of the model, so every
  theorem holds whatever they compute: the pseudo-random generator (\<open>perm\<close>,
  \<open>draw\<close>), the numerical fitting of a regressor (\<open>learn\<close>) and the contents of the
  data file (\<open>raw\<close>). Python floats are read as real numbers. Cells are counted
  from 0 in the order of the notebook, markdown cells included.
\<close>

subsection \<open>Exceptions\<close>

datatype error = KeyError | AttributeError | IndexError | ValueError | TypeError

text \<open>A statement that raises ends the run: the cells after it are not executed.\<close>

definition and_then :: "error + 'a \<Rightarrow> ('a \<Rightarrow> error + 'b) \<Rightarrow> error + 'b" where
  "and_then m f = (case m of Inl e \<Rightarrow> Inl e | Inr x \<Rightarrow> f x)"

subsection \<open>Data frames\<close>

text \<open>
  A pandas column has one dtype. \<open>read_csv\<close> infers \<open>int64\<close>, \<open>float64\<close>,
  \<open>bool\<close> or \<open>object\<close> (text); \<open>get_dummies\<close> adds \<open>uint8\<close>. Only a float
  and an object column can hold the missing marker NaN, here \<open>None\<close>.
\<close>

datatype dtype = dt_int64 | dt_float64 | dt_bool | dt_object | dt_uint8

datatype column =
    IntCol "int list"
  | FloatCol "real option list"
  | BoolCol "bool list"
  | ObjCol "string option list"
  | UInt8Col "nat list"

fun dtype_of :: "column \<Rightarrow> dtype" where
  "dtype_of (IntCol _) = dt_int64"
| "dtype_of (FloatCol _) = dt_float64"
| "dtype_of (BoolCol _) = dt_bool"
| "dtype_of (ObjCol _) = dt_object"
| "dtype_of (UInt8Col _) = dt_uint8"

text \<open>\<open>isna\<close> of the cell at a position of a column.\<close>

fun col_isna :: "column \<Rightarrow> nat \<Rightarrow> bool" where
  "col_isna (FloatCol xs) i = (xs ! i = None)"
| "col_isna (ObjCol xs) i = (xs ! i = None)"
| "col_isna _ i = False"

text \<open>The cells of a column at a list of positions, in that order.\<close>

fun col_take :: "nat list \<Rightarrow> column \<Rightarrow> column" where
  "col_take pos (IntCol xs) = IntCol (map ((!) xs) pos)"
| "col_take pos (FloatCol xs) = FloatCol (map ((!) xs) pos)"
| "col_take pos (BoolCol xs) = BoolCol (map ((!) xs) pos)"
| "col_take pos (ObjCol xs) = ObjCol (map ((!) xs) pos)"
| "col_take pos (UInt8Col xs) = UInt8Col (map ((!) xs) pos)"

text \<open>
  A frame is its row labels (\<open>df.index\<close>) and its labelled columns in order
  (\<open>df.columns\<close> with the data). The labels of a frame read from a file are
  \<open>0, 1, 2, ...\<close>; they stay with their rows through every selection.
\<close>

record frame =
  index :: "nat list"
  columns :: "(string \<times> column) list"

definition take_rows :: "nat list \<Rightarrow> frame \<Rightarrow> frame" where
  "take_rows pos df =
     \<lparr>index = map ((!) (index df)) pos,
      columns = map (\<lambda>(name, c). (name, col_take pos c)) (columns df)\<rparr>"

text \<open>Positional selection (\<open>iloc\<close>, scikit-learn's \<open>safe_indexing\<close>): a position
  past the last row raises.\<close>

definition iloc :: "nat list \<Rightarrow> frame \<Rightarrow> error + frame" where
  "iloc pos df =
     (if \<forall>p \<in> set pos. p < length (index df) then Inr (take_rows pos df) else Inl IndexError)"

text \<open>
  \<open>df.dropna(subset=[label])\<close>: the label must be a column; a row is kept when
  every column with that label has a value there.
\<close>

definition dropna :: "string \<Rightarrow> frame \<Rightarrow> error + frame" where
  "dropna label df =
     (let cs = [c. (name, c) \<leftarrow> columns df, name = label] in
      if cs = [] then Inl KeyError
      else Inr (take_rows [i \<leftarrow> [0..<length (index df)]. \<forall>c \<in> set cs. \<not> col_isna c i] df))"

text \<open>\<open>df.select_dtypes(include=...)\<close>: the columns of the listed dtypes, all rows.\<close>

definition select_dtypes :: "dtype list \<Rightarrow> frame \<Rightarrow> frame" where
  "select_dtypes include df =
     \<lparr>index = index df,
      columns = [(name, c) \<leftarrow> columns df. dtype_of c \<in> set include]\<rparr>"

text \<open>\<open>df.drop(labels, axis=1)\<close>: every label must be a column (pandas raises a
  \<open>KeyError\<close>, before version 0.21 a \<open>ValueError\<close>); the columns with these labels
  are left out.\<close>

definition drop_labels :: "string list \<Rightarrow> frame \<Rightarrow> error + frame" where
  "drop_labels labels df =
     (if \<forall>l \<in> set labels. l \<in> fst ` set (columns df)
      then Inr \<lparr>index = index df,
                columns = [(name, c) \<leftarrow> columns df. name \<notin> set labels]\<rparr>
      else Inl KeyError)"

text \<open>
  Attribute access \<open>df.label\<close>: the column with that label. (The labels of a frame
  read from a file are distinct, and the labels \<open>get_dummies\<close> adds contain an
  underscore; the first column of that label is the only one.)
\<close>

definition getattr :: "frame \<Rightarrow> string \<Rightarrow> error + column" where
  "getattr df label =
     (case map_of (columns df) label of None \<Rightarrow> Inl AttributeError | Some c \<Rightarrow> Inr c)"

text \<open>Item access \<open>df[label]\<close>: the same column, a \<open>KeyError\<close> without one.\<close>

definition getitem :: "frame \<Rightarrow> string \<Rightarrow> error + column" where
  "getitem df label =
     (case map_of (columns df) label of None \<Rightarrow> Inl KeyError | Some c \<Rightarrow> Inr c)"

subsection \<open>One-hot encoding: \<open>pd.get_dummies\<close>\<close>

text \<open>
  With its default arguments (\<open>dummy_na=False\<close>, \<open>drop_first=False\<close>, prefix the
  column label, separator \<open>_\<close>) \<open>get_dummies\<close> encodes the object columns. The
  levels of a column are its distinct values in sorted order, NaN is not a level; a
  column becomes one \<open>uint8\<close> indicator column per level. The result is the other
  columns, unchanged and in their order, followed by the indicator blocks in the order
  of the encoded columns.
\<close>

definition levels :: "string option list \<Rightarrow> string list" where
  "levels xs = sort (remdups [s. Some s \<leftarrow> xs])"

definition dummies :: "string \<Rightarrow> string option list \<Rightarrow> (string \<times> column) list" where
  "dummies prefix xs =
     map (\<lambda>l. (prefix @ ''_'' @ l, UInt8Col (map (\<lambda>x. if x = Some l then 1 else 0) xs)))
       (levels xs)"

fun dummies_of :: "string \<times> column \<Rightarrow> (string \<times> column) list" where
  "dummies_of (name, ObjCol xs) = dummies name xs"
| "dummies_of (name, _) = []"

definition get_dummies :: "frame \<Rightarrow> frame" where
  "get_dummies df =
     \<lparr>index = index df,
      columns = [(name, c) \<leftarrow> columns df. dtype_of c \<noteq> dt_object]
                @ concat (map dummies_of (columns df))\<rparr>"




subsection \<open>Splitting: \<open>train_test_split\<close>\<close>

text \<open>
  \<open>train_test_split(df, test_size=t, random_state=s)\<close> with a float \<open>t\<close> runs one
  \<open>ShuffleSplit\<close>: \<open>n_test = ceil(t * n_samples)\<close>, \<open>n_train = n_samples - n_test\<close>,
  a permutation of the \<open>n_samples\<close> positions is drawn from the generator seeded
  with \<open>s\<close>; its first \<open>n_test\<close> positions are the test rows, the next \<open>n_train\<close>
  the training rows. The generator is the parameter \<open>perm\<close>: \<open>perm s n\<close> is what
  \<open>RandomState(s).permutation(n)\<close> returns. The notebook passes \<open>t = 0.33\<close>; a
  fraction of one or more is refused by the library, and a fraction of zero or less, to
  which it gives no meaning, is refused here as well.
\<close>

definition train_test_split ::
  "(nat \<Rightarrow> nat \<Rightarrow> nat list) \<Rightarrow> frame \<Rightarrow> real \<Rightarrow> nat \<Rightarrow> error + (frame \<times> frame)" where
  "train_test_split perm df t s =
     (if t \<le> 0 \<or> 1 \<le> t then Inl ValueError
      else
        let n_samples = length (index df);
            n_test = nat \<lceil>t * real n_samples\<rceil>;
            n_train = n_samples - n_test;
            permutation = perm s n_samples;
            ind_test = take n_test permutation;
            ind_train = take n_train (drop n_test permutation)
        in and_then (iloc ind_train df) (\<lambda>train.
           and_then (iloc ind_test df) (\<lambda>test. Inr (train, test))))"

subsection \<open>Cells 2 to 10: read and prepare data\<close>

definition random_state :: nat where
  "random_state = 0"

definition test_size :: real where
  "test_size = 33 / 100"

text \<open>
  The variables of the notebook after cell 10. \<open>raw\<close> is what \<open>read_csv\<close> returned
  in cell 4 (with \<open>?\<close> read as NaN). Cell 5 prints the number of missing prices: it
  reads \<open>data.price\<close> and binds nothing. Cell 6 rebinds \<open>data\<close>, cell 8 binds
  \<open>tr\<close> and \<open>te\<close>, cell 10 rebinds \<open>tr\<close> alone. (Cell 12 shows the number of
  missing cells of each column of \<open>tr\<close>; it binds nothing and raises on no frame.)
\<close>

record namespace =
  data :: frame
  tr :: frame
  te :: frame

definition prepare_data :: "(nat \<Rightarrow> nat \<Rightarrow> nat list) \<Rightarrow> frame \<Rightarrow> error + namespace" where
  "prepare_data perm raw =
     and_then (getattr raw ''price'') (\<lambda>price.
     and_then (dropna ''price'' raw) (\<lambda>data.
     and_then (train_test_split perm data test_size random_state) (\<lambda>(tr, te).
     Inr \<lparr>data = data, tr = select_dtypes [dt_int64, dt_float64] tr, te = te\<rparr>)))"

subsection \<open>Cells 32 to 38: including categorical features\<close>

text \<open>
  Cell 32 binds \<open>data_cat\<close>. Cell 34 shows \<open>data['fuel-system'].value_counts()\<close>:
  it binds nothing and raises on a table without that column. (Cell 36 shows the columns
  of \<open>data_cat\<close> whose label starts with \<open>fuel-system\<close>, which may be none; it
  raises on no frame.) Cell 38 rebinds \<open>tr\<close> and \<open>te\<close>.
\<close>

record namespace_cat = namespace +
  data_cat :: frame

definition include_categorical ::
  "(nat \<Rightarrow> nat \<Rightarrow> nat list) \<Rightarrow> namespace \<Rightarrow> error + namespace_cat" where
  "include_categorical perm ns =
     (let data_cat = get_dummies (data ns) in
      and_then (getitem (data ns) ''fuel-system'') (\<lambda>fuel_system.
      and_then (train_test_split perm data_cat test_size random_state) (\<lambda>(tr, te).
      Inr \<lparr>data = data ns, tr = tr, te = te, data_cat = data_cat\<rparr>)))"

subsection \<open>The arguments of every fit and score call\<close>

text \<open>
  Cells 22, 29 and 41 call \<open>fit(tr.drop(['price'], axis=1), tr.price)\<close> and cell 47
  calls \<open>score(te.drop(['price'], axis=1), te.price)\<close>: the same two expressions of
  one frame.
\<close>

definition features_target :: "frame \<Rightarrow> error + (frame \<times> column)" where
  "features_target t =
     and_then (drop_labels [''price''] t) (\<lambda>X.
     and_then (getattr t ''price'') (\<lambda>y. Inr (X, y)))"


subsection \<open>A column without missing cells\<close>

text \<open>No column of the frame with this label has a missing cell in any row.\<close>

definition no_missing :: "string \<Rightarrow> frame \<Rightarrow> bool" where
  "no_missing label t =
     (\<forall>(name, c) \<in> set (columns t).
        name = label \<longrightarrow> (\<forall>i \<in> {0..<length (index t)}. \<not> col_isna c i))"

text \<open>A list of results, or the first exception raised on the way.\<close>

fun collect :: "(error + 'a) list \<Rightarrow> error + 'a list" where
  "collect [] = Inr []"
| "collect (m # ms) = and_then m (\<lambda>x. and_then (collect ms) (\<lambda>xs. Inr (x # xs)))"

section \<open>The scikit-learn calls\<close>

subsection \<open>From frames to arrays\<close>

text \<open>
  An estimator converts what it is given to an array of floats (\<open>check_array\<close>):
  integers, booleans and indicators become floats, NaN stays. Cells 10 and 32 leave no
  object column in a frame that is fitted or scored; text does not convert.
\<close>

type_synonym matrix = "real option list list"

fun col_values :: "column \<Rightarrow> error + real option list" where
  "col_values (IntCol xs) = Inr (map (\<lambda>x. Some (real_of_int x)) xs)"
| "col_values (FloatCol xs) = Inr xs"
| "col_values (BoolCol xs) = Inr (map (\<lambda>b. Some (if b then 1 else 0)) xs)"
| "col_values (UInt8Col xs) = Inr (map (\<lambda>n. Some (real n)) xs)"
| "col_values (ObjCol xs) = Inl ValueError"

definition to_matrix :: "frame \<Rightarrow> error + matrix" where
  "to_matrix df =
     and_then (collect (map (\<lambda>(name, c). col_values c) (columns df))) (\<lambda>cols.
     Inr (map (\<lambda>i. map (\<lambda>c. c ! i) cols) [0..<length (index df)]))"

text \<open>The target must be finite everywhere (\<open>check_X_y\<close>, \<open>check_array\<close> of the
  metric).\<close>

definition target :: "column \<Rightarrow> error + real list" where
  "target c =
     and_then (col_values c) (\<lambda>ys.
     if None \<notin> set ys then Inr (map the ys) else Inl ValueError)"

definition all_finite :: "matrix \<Rightarrow> error + real list list" where
  "all_finite X =
     (if \<forall>row \<in> set X. None \<notin> set row then Inr (map (map the) X)
      else Inl ValueError)"

subsection \<open>Estimators and pipelines\<close>

text \<open>A hyper-parameter value: a Python float or int.\<close>

datatype pval = PFloat real | PInt int

fun as_float :: "pval \<Rightarrow> real" where
  "as_float (PFloat x) = x"
| "as_float (PInt i) = real_of_int i"

text \<open>
  The two regressors with the hyper-parameters the notebook sets or searches; the
  others keep their defaults and are part of what \<open>learn\<close> computes.
\<close>

datatype regressor =
    Ridge (alpha: real)
  | GradientBoostingRegressor (n_estimators: int) (rgs_random_state: int)
      (learning_rate: real) (max_depth: int) (min_samples_leaf: int)
      (max_features: "pval option")

datatype step = ImputerMedian | StandardScaler | Rgs regressor

type_synonym pipeline = "(string \<times> step) list"

text \<open>
  Fitting a regressor on a finite matrix and a target gives a predictor, or raises. The
  numerical algorithms are the library's: \<open>learn\<close> is a parameter.
\<close>

type_synonym learner = "regressor \<Rightarrow> real list list \<Rightarrow> real list \<Rightarrow> error + (real list \<Rightarrow> real)"

text \<open>The fitted state of a transformer: the imputer's \<open>statistics_\<close>, the scaler's
  \<open>mean_\<close> and \<open>scale_\<close>.\<close>

datatype fitted_step =
    FittedImputer "real option list"
  | FittedScaler "real list" "real list"

record fitted_pipeline =
  transformers :: "fitted_step list"
  predictor :: "real list \<Rightarrow> real"

text \<open>\<open>np.median\<close> of the values present in a column; NaN (\<open>None\<close>) for none.\<close>

definition median :: "real list \<Rightarrow> real option" where
  "median vs =
     (if vs = [] then None
      else let s = sort vs; n = length s in
        Some (if odd n then s ! (n div 2) else (s ! (n div 2 - 1) + s ! (n div 2)) / 2))"

definition mean :: "real list \<Rightarrow> real" where
  "mean vs = sum_list vs / real (length vs)"

text \<open>The population standard deviation; a scale of zero is replaced by one.\<close>

definition std :: "real list \<Rightarrow> real" where
  "std vs = sqrt (mean (map (\<lambda>v. (v - mean vs)\<^sup>2) vs))"

definition handle_zeros_in_scale :: "real \<Rightarrow> real" where
  "handle_zeros_in_scale s = (if s = 0 then 1 else s)"

definition feature :: "'a list list \<Rightarrow> nat \<Rightarrow> 'a list" where
  "feature X j = map (\<lambda>row. row ! j) X"

text \<open>\<open>Imputer(strategy='median').fit\<close>: at least one row; one median per column.\<close>

definition imputer_fit :: "matrix \<Rightarrow> error + real option list" where
  "imputer_fit X =
     (if X = [] then Inl ValueError
      else Inr (map (\<lambda>j. median [v. Some v \<leftarrow> feature X j]) [0..<length (hd X)]))"

text \<open>\<open>Imputer.transform\<close>: a column without a median is removed; in the others a
  missing cell gets the median.\<close>

definition imputer_transform :: "real option list \<Rightarrow> matrix \<Rightarrow> error + matrix" where
  "imputer_transform statistics X =
     (if X = [] \<or> length (hd X) \<noteq> length statistics then Inl ValueError
      else Inr (map (\<lambda>row. [Some (case x of None \<Rightarrow> m | Some v \<Rightarrow> v).
                              (x, Some m) \<leftarrow> zip row statistics]) X))"

text \<open>\<open>StandardScaler().fit\<close>: at least one row and no NaN.\<close>

definition scaler_fit :: "matrix \<Rightarrow> error + (real list \<times> real list)" where
  "scaler_fit X =
     and_then (all_finite X) (\<lambda>Z.
     if Z = [] then Inl ValueError
     else Inr (map (\<lambda>j. mean (feature Z j)) [0..<length (hd Z)],
               map (\<lambda>j. handle_zeros_in_scale (std (feature Z j))) [0..<length (hd Z)]))"

definition scaler_transform :: "real list \<Rightarrow> real list \<Rightarrow> matrix \<Rightarrow> error + matrix" where
  "scaler_transform fitted_mean fitted_scale X =
     and_then (all_finite X) (\<lambda>Z.
     if Z = [] \<or> length (hd Z) \<noteq> length fitted_mean then Inl ValueError
     else Inr (map (\<lambda>row. map (\<lambda>(x, m, s). Some ((x - m) / s)) (zip row (zip fitted_mean fitted_scale))) Z))"

fun fit_step :: "step \<Rightarrow> matrix \<Rightarrow> error + fitted_step" where
  "fit_step ImputerMedian X = and_then (imputer_fit X) (\<lambda>statistics. Inr (FittedImputer statistics))"
| "fit_step StandardScaler X = and_then (scaler_fit X) (\<lambda>(fitted_mean, fitted_scale). Inr (FittedScaler fitted_mean fitted_scale))"
| "fit_step (Rgs r) X = Inl TypeError"

fun transform :: "fitted_step \<Rightarrow> matrix \<Rightarrow> error + matrix" where
  "transform (FittedImputer statistics) X = imputer_transform statistics X"
| "transform (FittedScaler fitted_mean fitted_scale) X = scaler_transform fitted_mean fitted_scale X"

text \<open>\<open>Pipeline.fit\<close>: every step but the last is fitted on what the steps before it
  made of the rows given, and transforms them for the next; the last step is the regressor.\<close>

fun fit_transformers :: "step list \<Rightarrow> matrix \<Rightarrow> error + (fitted_step list \<times> matrix)" where
  "fit_transformers [] X = Inr ([], X)"
| "fit_transformers (t # ts) X =
     and_then (fit_step t X) (\<lambda>f.
     and_then (transform f X) (\<lambda>Xt.
     and_then (fit_transformers ts Xt) (\<lambda>(fs, Xt'). Inr (f # fs, Xt'))))"

definition Pipeline_fit :: "learner \<Rightarrow> pipeline \<Rightarrow> matrix \<Rightarrow> real list \<Rightarrow> error + fitted_pipeline" where
  "Pipeline_fit learn steps X y =
     (if steps = [] then Inl TypeError
      else case snd (last steps) of
        Rgs r \<Rightarrow>
          and_then (fit_transformers (map snd (butlast steps)) X) (\<lambda>(fs, Xt).
          and_then (all_finite Xt) (\<lambda>Z.
          if length Z \<noteq> length y then Inl ValueError
          else and_then (learn r Z y) (\<lambda>p. Inr \<lparr>transformers = fs, predictor = p\<rparr>)))
      | _ \<Rightarrow> Inl TypeError)"

fun transform_all :: "fitted_step list \<Rightarrow> matrix \<Rightarrow> error + matrix" where
  "transform_all [] X = Inr X"
| "transform_all (f # fs) X = and_then (transform f X) (transform_all fs)"

text \<open>\<open>Pipeline.predict\<close>: the rows go through the fitted transformers, then to the
  regressor, which wants at least one row.\<close>

definition Pipeline_predict :: "fitted_pipeline \<Rightarrow> matrix \<Rightarrow> error + real list" where
  "Pipeline_predict est X =
     and_then (transform_all (transformers est) X) (\<lambda>Xt.
     and_then (all_finite Xt) (\<lambda>Z.
     if Z = [] then Inl ValueError else Inr (map (predictor est) Z)))"

subsection \<open>The scorer \<open>neg_mean_absolute_error\<close>\<close>

definition mean_absolute_error :: "real list \<Rightarrow> real list \<Rightarrow> error + real" where
  "mean_absolute_error y_true y_pred =
     (if length y_true \<noteq> length y_pred \<or> y_true = [] then Inl ValueError
      else Inr (sum_list (map (\<lambda>(t, p). \<bar>p - t\<bar>) (zip y_true y_pred)) / real (length y_true)))"

definition neg_mean_absolute_error :: "fitted_pipeline \<Rightarrow> matrix \<Rightarrow> real list \<Rightarrow> error + real" where
  "neg_mean_absolute_error est X y =
     and_then (Pipeline_predict est X) (\<lambda>y_pred.
     and_then (mean_absolute_error y y_pred) (\<lambda>mae. Inr (- mae)))"

subsection \<open>Setting hyper-parameters\<close>

text \<open>\<open>key.partition('__')\<close>: the text before the first double underscore, and the
  text after it when there is one.\<close>

fun partition_sep :: "string \<Rightarrow> string \<times> string option" where
  "partition_sep [] = ([], None)"
| "partition_sep (c # cs) =
     (if c = CHR ''_'' \<and> cs \<noteq> [] \<and> hd cs = CHR ''_'' then ([], Some (tl cs))
      else case partition_sep cs of (name, sub) \<Rightarrow> (c # name, sub))"

fun set_rgs_param :: "string \<Rightarrow> pval \<Rightarrow> regressor \<Rightarrow> error + regressor" where
  "set_rgs_param key v (Ridge a) =
     (if key = ''alpha'' then Inr (Ridge (as_float v)) else Inl ValueError)"
| "set_rgs_param key v (GradientBoostingRegressor n rs lr md msl mf) =
     (if key = ''learning_rate'' then Inr (GradientBoostingRegressor n rs (as_float v) md msl mf)
      else if key = ''max_features'' then Inr (GradientBoostingRegressor n rs lr md msl (Some v))
      else case v of
        PFloat x \<Rightarrow> Inl ValueError
      | PInt i \<Rightarrow>
          if key = ''n_estimators'' then Inr (GradientBoostingRegressor i rs lr md msl mf)
          else if key = ''random_state'' then Inr (GradientBoostingRegressor n i lr md msl mf)
          else if key = ''max_depth'' then Inr (GradientBoostingRegressor n rs lr i msl mf)
          else if key = ''min_samples_leaf'' then Inr (GradientBoostingRegressor n rs lr md i mf)
          else Inl ValueError)"

text \<open>
  \<open>Pipeline.set_params\<close> for a key \<open>step__parameter\<close> of the regressor step, the
  only kind of key in the notebook's grids; an unknown step or parameter is refused. (So
  is, here, a float for a hyper-parameter that counts: the grids give those integers.)
\<close>

definition set_param :: "pipeline \<Rightarrow> string \<times> pval \<Rightarrow> error + pipeline" where
  "set_param steps kv =
     (case partition_sep (fst kv) of
        (name, None) \<Rightarrow> Inl ValueError
      | (name, Some sub) \<Rightarrow>
          (case map_of steps name of
             Some (Rgs r) \<Rightarrow>
               and_then (set_rgs_param sub (snd kv) r) (\<lambda>r'.
               Inr (map (\<lambda>(n, s). if n = name then (n, Rgs r') else (n, s)) steps))
           | _ \<Rightarrow> Inl ValueError))"

fun set_params :: "pipeline \<Rightarrow> (string \<times> pval) list \<Rightarrow> error + pipeline" where
  "set_params steps [] = Inr steps"
| "set_params steps (kv # kvs) = and_then (set_param steps kv) (\<lambda>steps'. set_params steps' kvs)"

subsection \<open>Candidates: \<open>ParameterGrid\<close> and \<open>ParameterSampler\<close>\<close>

text \<open>The grid in the order of its sorted keys, the last key varying fastest.\<close>

definition ParameterGrid :: "(string \<times> pval list) list \<Rightarrow> (string \<times> pval) list list" where
  "ParameterGrid grid =
     (let items = sort_key fst grid in
      map (zip (map fst items)) (product_lists (map snd items)))"

text \<open>
  A parameter is drawn from a list or from \<open>scipy.stats.randint(low, high)\<close>, the
  integers from \<open>low\<close> up to \<open>high - 1\<close>. The generator is a parameter:
  \<open>draw s k\<close> is the \<open>k\<close>-th raw number of the generator seeded with \<open>s\<close>,
  reduced to the range asked for.
\<close>

datatype distribution = choices "pval list" | sp_randint int int

fun rvs :: "distribution \<Rightarrow> nat \<Rightarrow> error + pval" where
  "rvs (choices vs) r = (if vs = [] then Inl ValueError else Inr (vs ! (r mod length vs)))"
| "rvs (sp_randint low high) r =
     (if high \<le> low then Inl ValueError else Inr (PInt (low + int (r mod nat (high - low)))))"

fun is_choices :: "distribution \<Rightarrow> bool" where
  "is_choices (choices vs) = True"
| "is_choices (sp_randint low high) = False"

text \<open>
  \<open>ParameterSampler\<close>: when every parameter has a list, \<open>n_iter\<close> distinct points
  of the grid; otherwise \<open>n_iter\<close> points, each drawing its parameters in the order
  of the sorted keys.
\<close>

definition ParameterSampler ::
  "(nat \<Rightarrow> nat \<Rightarrow> nat list) \<Rightarrow> (nat \<Rightarrow> nat \<Rightarrow> nat) \<Rightarrow> (string \<times> distribution) list \<Rightarrow> nat \<Rightarrow> nat
     \<Rightarrow> error + (string \<times> pval) list list" where
  "ParameterSampler perm draw param_distributions n_iter s =
     (if \<forall>(k, v) \<in> set param_distributions. is_choices v then
        let grid = ParameterGrid [(k, vs). (k, choices vs) \<leftarrow> param_distributions];
            picked = take n_iter (perm s (length grid))
        in if length grid < n_iter then Inl ValueError
           else if \<forall>i \<in> set picked. i < length grid then Inr (map ((!) grid) picked)
           else Inl IndexError
      else
        let items = sort_key fst param_distributions; m = length items in
        collect (map (\<lambda>it.
          collect (map (\<lambda>(j, k, v). and_then (rvs v (draw s (it * m + j))) (\<lambda>x. Inr (k, x)))
                       (enumerate 0 items)))
          [0..<n_iter]))"

subsection \<open>Cross-validation: \<open>KFold\<close>\<close>

text \<open>
  An integer \<open>cv\<close> for a regressor is \<open>KFold(cv)\<close> without shuffling: consecutive
  blocks of positions, the first \<open>n_samples mod n_splits\<close> blocks one longer; each
  block is the test part of one split, all other positions its training part.
\<close>

definition fold_sizes :: "nat \<Rightarrow> nat \<Rightarrow> nat list" where
  "fold_sizes n_samples n_splits =
     map (\<lambda>i. n_samples div n_splits + (if i < n_samples mod n_splits then 1 else 0))
       [0..<n_splits]"

fun test_blocks :: "nat \<Rightarrow> nat list \<Rightarrow> nat list list" where
  "test_blocks current [] = []"
| "test_blocks current (fold_size # rest) =
     [current..<current + fold_size] # test_blocks (current + fold_size) rest"

definition KFold_split :: "nat \<Rightarrow> nat \<Rightarrow> error + (nat list \<times> nat list) list" where
  "KFold_split n_samples n_splits =
     (if n_splits > n_samples then Inl ValueError
      else Inr (map (\<lambda>test. ([i \<leftarrow> [0..<n_samples]. i \<notin> set test], test))
                 (test_blocks 0 (fold_sizes n_samples n_splits))))"

subsection \<open>The search: \<open>GridSearchCV\<close> and \<open>RandomizedSearchCV\<close>\<close>

text \<open>What one split does with one candidate: a fresh pipeline with the candidate's
  parameters is fitted on the training rows of the split and nothing else.\<close>

definition fold_fit ::
  "learner \<Rightarrow> pipeline \<Rightarrow> (string \<times> pval) list \<Rightarrow> matrix \<Rightarrow> real list \<Rightarrow> nat list
     \<Rightarrow> error + fitted_pipeline" where
  "fold_fit learn estimator parameters X y train =
     and_then (set_params estimator parameters) (\<lambda>est.
     Pipeline_fit learn est (map ((!) X) train) (map ((!) y) train))"

text \<open>\<open>_fit_and_score\<close>: the score of the fitted pipeline on the test rows of the
  split, and their number.\<close>

definition fit_and_score ::
  "learner \<Rightarrow> pipeline \<Rightarrow> matrix \<Rightarrow> real list \<Rightarrow> (string \<times> pval) list \<Rightarrow> nat list \<times> nat list
     \<Rightarrow> error + (real \<times> nat)" where
  "fit_and_score learn estimator X y parameters split =
     and_then (fold_fit learn estimator parameters X y (fst split)) (\<lambda>fitted.
     and_then (neg_mean_absolute_error fitted (map ((!) X) (snd split)) (map ((!) y) (snd split)))
       (\<lambda>score. Inr (score, length (snd split))))"

text \<open>
  With \<open>iid=True\<close> (the default of this version, printed by cells 22, 29 and 41) the
  mean and the standard deviation of a candidate's scores over the splits are weighted
  by the numbers of test rows.
\<close>

definition average :: "(real \<times> nat) list \<Rightarrow> real" where
  "average scores =
     sum_list (map (\<lambda>(score, w). score * real w) scores) / real (sum_list (map snd scores))"

definition weighted_std :: "(real \<times> nat) list \<Rightarrow> real" where
  "weighted_std scores =
     sqrt (average (map (\<lambda>(score, w). ((score - average scores)\<^sup>2, w)) scores))"

text \<open>\<open>rankdata(-means, method='min')\<close>: one more than the number of strictly better
  means; \<open>argmin\<close>: the first position of the least value.\<close>

definition rank_test_score :: "real list \<Rightarrow> nat list" where
  "rank_test_score means = map (\<lambda>m. Suc (length [m' \<leftarrow> means. m < m'])) means"

definition argmin :: "nat list \<Rightarrow> nat" where
  "argmin rs = hd [i \<leftarrow> [0..<length rs]. rs ! i = Min (set rs)]"

text \<open>The fitted search; the attributes \<open>best_index_\<close>, \<open>best_params_\<close>,
  \<open>best_score_\<close> and \<open>best_estimator_\<close> are written without the last underscore,
  the entries of \<open>cv_results_\<close> by their keys.\<close>

record search =
  params :: "(string \<times> pval) list list"
  split_test_scores :: "(real \<times> nat) list list"
  mean_test_score :: "real list"
  std_test_score :: "real list"
  best_index :: nat
  best_params :: "(string \<times> pval) list"
  best_score :: real
  best_estimator :: fitted_pipeline

text \<open>
  \<open>BaseSearchCV.fit\<close> with \<open>refit=True\<close>: every candidate is scored on every
  split; the candidate of rank one that comes first is the best; the pipeline with its
  parameters is fitted again on all the rows given.
\<close>

definition BaseSearchCV_fit ::
  "learner \<Rightarrow> pipeline \<Rightarrow> (string \<times> pval) list list \<Rightarrow> nat \<Rightarrow> matrix \<Rightarrow> real list
     \<Rightarrow> error + search" where
  "BaseSearchCV_fit learn estimator candidate_params cv X y =
     (if length X \<noteq> length y then Inl ValueError
      else
        and_then (KFold_split (length X) cv) (\<lambda>splits.
        and_then (collect (map (\<lambda>parameters.
                    collect (map (fit_and_score learn estimator X y parameters) splits))
                  candidate_params)) (\<lambda>out.
        if candidate_params = [] then Inl ValueError
        else
          let means = map average out;
              best = argmin (rank_test_score means)
          in and_then (set_params estimator (candidate_params ! best)) (\<lambda>est.
             and_then (Pipeline_fit learn est X y) (\<lambda>refitted.
             Inr \<lparr>params = candidate_params,
                  split_test_scores = out,
                  mean_test_score = means,
                  std_test_score = map weighted_std out,
                  best_index = best,
                  best_params = candidate_params ! best,
                  best_score = means ! best,
                  best_estimator = refitted\<rparr>)))))"

definition GridSearchCV_fit ::
  "learner \<Rightarrow> pipeline \<Rightarrow> (string \<times> pval list) list \<Rightarrow> nat \<Rightarrow> matrix \<Rightarrow> real list
     \<Rightarrow> error + search" where
  "GridSearchCV_fit learn estimator param_grid cv X y =
     BaseSearchCV_fit learn estimator (ParameterGrid param_grid) cv X y"

definition RandomizedSearchCV_fit ::
  "learner \<Rightarrow> (nat \<Rightarrow> nat \<Rightarrow> nat list) \<Rightarrow> (nat \<Rightarrow> nat \<Rightarrow> nat) \<Rightarrow> pipeline
     \<Rightarrow> (string \<times> distribution) list \<Rightarrow> nat \<Rightarrow> nat \<Rightarrow> nat \<Rightarrow> matrix \<Rightarrow> real list
     \<Rightarrow> error + search" where
  "RandomizedSearchCV_fit learn perm draw estimator param_distributions n_iter s cv X y =
     and_then (ParameterSampler perm draw param_distributions n_iter s) (\<lambda>candidate_params.
     BaseSearchCV_fit learn estimator candidate_params cv X y)"

text \<open>\<open>search.score(X, y)\<close>: the scorer on the refitted pipeline.\<close>

definition score :: "search \<Rightarrow> matrix \<Rightarrow> real list \<Rightarrow> error + real" where
  "score gs X y = neg_mean_absolute_error (best_estimator gs) X y"

section \<open>The experiments of the notebook\<close>

subsection \<open>Arguments of \<open>fit\<close> and \<open>score\<close> as arrays\<close>

definition arrays :: "frame \<Rightarrow> error + (matrix \<times> real list)" where
  "arrays t =
     and_then (features_target t) (\<lambda>(X, y).
     and_then (to_matrix X) (\<lambda>Xm.
     and_then (target y) (\<lambda>ym. Inr (Xm, ym))))"

subsection \<open>Cells 18 to 22 and 40 to 41: ridge regressor\<close>

definition ridge_pipeline :: pipeline where
  "ridge_pipeline =
     [(''imputer'', ImputerMedian), (''scaler'', StandardScaler), (''rgs'', Rgs (Ridge 1))]"

definition alpha_range :: "real list" where
  "alpha_range = [10, 1, 0.1, 0.01, 0.001, 0.0001, 0]"

definition ridge_grid :: "(string \<times> pval list) list" where
  "ridge_grid = [(''rgs__alpha'', map PFloat alpha_range)]"

text \<open>Cells 20 and 22 on the numeric training partition, cells 40 and 41 on the encoded
  one: the same statements on the \<open>tr\<close> of the moment.\<close>

definition ridge_search :: "learner \<Rightarrow> frame \<Rightarrow> error + search" where
  "ridge_search learn t =
     and_then (arrays t) (\<lambda>(X, y). GridSearchCV_fit learn ridge_pipeline ridge_grid 5 X y)"


subsection \<open>Cells 25 to 29: gradient boosting regressor\<close>

definition gb_pipeline :: pipeline where
  "gb_pipeline =
     [(''imputer'', ImputerMedian),
      (''rgs'', Rgs (GradientBoostingRegressor 3000 (int random_state) 0.1 3 1 None))]"

definition learning_rate_vals :: "real list" where
  "learning_rate_vals = [0.1, 0.05, 0.02, 0.01]"

definition max_depth_dist :: distribution where
  "max_depth_dist = sp_randint 4 6"

definition min_samples_leaf_dist :: distribution where
  "min_samples_leaf_dist = sp_randint 3 17"

definition max_features_vals :: "real list" where
  "max_features_vals = [1.0, 0.3, 0.1]"

definition gb_grid :: "(string \<times> distribution) list" where
  "gb_grid =
     [(''rgs__learning_rate'', choices (map PFloat learning_rate_vals)),
      (''rgs__max_depth'', max_depth_dist),
      (''rgs__min_samples_leaf'', min_samples_leaf_dist),
      (''rgs__max_features'', choices (map PFloat max_features_vals))]"

definition n_points :: nat where
  "n_points = 20"

definition gb_search ::
  "learner \<Rightarrow> (nat \<Rightarrow> nat \<Rightarrow> nat list) \<Rightarrow> (nat \<Rightarrow> nat \<Rightarrow> nat) \<Rightarrow> frame \<Rightarrow> error + search" where
  "gb_search learn perm draw t =
     and_then (arrays t) (\<lambda>(X, y).
     RandomizedSearchCV_fit learn perm draw gb_pipeline gb_grid n_points random_state 5 X y)"

subsection \<open>Cells 44 and 45: performance comparison\<close>

record performance =
  Experiment :: string
  MAE_mean :: real
  MAE_std :: real

text \<open>One pass of the loop of cell 44: the standard deviation is read at the first
  candidate whose mean equals the best score; indexing an empty selection raises.\<close>

definition performance_row :: "string \<times> search \<Rightarrow> error + performance" where
  "performance_row r =
     (case [s. (m, s) \<leftarrow> zip (mean_test_score (snd r)) (std_test_score (snd r)),
               m = best_score (snd r)] of
        [] \<Rightarrow> Inl IndexError
      | std_score # _ \<Rightarrow>
          Inr \<lparr>Experiment = fst r, MAE_mean = - best_score (snd r), MAE_std = std_score\<rparr>)"

definition performances :: "search \<Rightarrow> search \<Rightarrow> search \<Rightarrow> error + performance list" where
  "performances ridge_gs gb_gs ridge_cat_gs =
     (let gs_results = [(''Ridge num'', ridge_gs), (''Gradient boosting'', gb_gs),
                        (''Ridge cat'', ridge_cat_gs)]
      in collect (map performance_row gs_results))"

text \<open>\<open>sort_values(by='MAE mean')\<close>: ascending.\<close>

definition sort_values :: "performance list \<Rightarrow> performance list" where
  "sort_values table = sort_key MAE_mean table"

subsection \<open>Cell 47: the error on the held-out partition\<close>

definition test_mae :: "search \<Rightarrow> frame \<Rightarrow> error + real" where
  "test_mae ridge_cat_gs t =
     and_then (arrays t) (\<lambda>(X, y).
     and_then (score ridge_cat_gs X y) (\<lambda>s. Inr (- s)))"

subsection \<open>The whole notebook\<close>

text \<open>What the notebook shows at the end: the sorted table of cell 45 and the number
  printed by cell 47.\<close>

definition notebook ::
  "learner \<Rightarrow> (nat \<Rightarrow> nat \<Rightarrow> nat list) \<Rightarrow> (nat \<Rightarrow> nat \<Rightarrow> nat) \<Rightarrow> frame
     \<Rightarrow> error + (performance list \<times> real)" where
  "notebook learn perm draw raw =
     and_then (prepare_data perm raw) (\<lambda>ns.
     and_then (ridge_search learn (tr ns)) (\<lambda>ridge_gs.
     and_then (gb_search learn perm draw (tr ns)) (\<lambda>gb_gs.
     and_then (include_categorical perm ns) (\<lambda>ns'.
     and_then (ridge_search learn (tr ns')) (\<lambda>ridge_cat_gs.
     and_then (performances ridge_gs gb_gs ridge_cat_gs) (\<lambda>table.
     and_then (test_mae ridge_cat_gs (te ns')) (\<lambda>mae.
     Inr (sort_values table, mae))))))))"

section \<open>A small table\<close>

text \<open>
  Nine cars as \<open>read_csv\<close> would return them: one without a price, one without a
  number of doors, one without a horsepower. The generator of the example returns the
  positions in reverse and counts its raw draws. The regressor of the example predicts a
  thousand times the number of features it is given when it is a ridge regressor, and
  nine thousand when it is a gradient boosting regressor.
\<close>

definition raw1 :: frame where
  "raw1 = \<lparr>index = [0, 1, 2, 3, 4, 5, 6, 7, 8],
           columns =
             [(''fuel-system'', ObjCol [Some ''mpfi'', Some ''mpfi'', Some ''2bbl'', Some ''mpfi'',
                 Some ''mpfi'', Some ''mpfi'', Some ''2bbl'', Some ''mpfi'', Some ''mpfi'']),
              (''num-of-doors'', ObjCol [Some ''two'', Some ''four'', Some ''four'', None,
                 Some ''four'', Some ''four'', Some ''two'', Some ''four'', Some ''two'']),
              (''horsepower'', FloatCol [Some 111, None, Some 154, Some 102, Some 115, Some 110,
                 Some 68, Some 95, Some 88]),
              (''price'', FloatCol [Some 10000, Some 10000, Some 10000, Some 10000, None,
                 Some 10000, Some 10000, Some 10000, Some 10000])]\<rparr>"

definition perm1 :: "nat \<Rightarrow> nat \<Rightarrow> nat list" where
  "perm1 s n = rev [0..<n]"

definition draw1 :: "nat \<Rightarrow> nat \<Rightarrow> nat" where
  "draw1 s k = k"

definition learn1 :: learner where
  "learn1 r Z y =
     Inr (\<lambda>x. case r of Ridge a \<Rightarrow> 1000 * real (length x)
                      | GradientBoostingRegressor n rs lr md msl mf \<Rightarrow> 9000)"


text \<open>The variables after cell 10 and after cell 38 on this table.\<close>

definition ns1 :: namespace where
  "ns1 =
     \<lparr>data = \<lparr>index = [0, 1, 2, 3, 5, 6, 7, 8],
               columns =
                 [(''fuel-system'', ObjCol [Some ''mpfi'', Some ''mpfi'', Some ''2bbl'', Some ''mpfi'',
                     Some ''mpfi'', Some ''2bbl'', Some ''mpfi'', Some ''mpfi'']),
                  (''num-of-doors'', ObjCol [Some ''two'', Some ''four'', Some ''four'', None,
                     Some ''four'', Some ''two'', Some ''four'', Some ''two'']),
                  (''horsepower'', FloatCol [Some 111, None, Some 154, Some 102, Some 110,
                     Some 68, Some 95, Some 88]),
                  (''price'', FloatCol [Some 10000, Some 10000, Some 10000, Some 10000,
                     Some 10000, Some 10000, Some 10000, Some 10000])]\<rparr>,
      tr = \<lparr>index = [5, 3, 2, 1, 0],
             columns =
               [(''horsepower'', FloatCol [Some 110, Some 102, Some 154, None, Some 111]),
                (''price'', FloatCol [Some 10000, Some 10000, Some 10000, Some 10000, Some 10000])]\<rparr>,
      te = \<lparr>index = [8, 7, 6],
             columns =
               [(''fuel-system'', ObjCol [Some ''mpfi'', Some ''mpfi'', Some ''2bbl'']),
                (''num-of-doors'', ObjCol [Some ''two'', Some ''four'', Some ''two'']),
                (''horsepower'', FloatCol [Some 88, Some 95, Some 68]),
                (''price'', FloatCol [Some 10000, Some 10000, Some 10000])]\<rparr>\<rparr>"

definition ns1_cat :: namespace_cat where
  "ns1_cat =
     \<lparr>data = data ns1,
      tr = \<lparr>index = [5, 3, 2, 1, 0],
             columns =
               [(''horsepower'', FloatCol [Some 110, Some 102, Some 154, None, Some 111]),
                (''price'', FloatCol [Some 10000, Some 10000, Some 10000, Some 10000, Some 10000]),
                (''fuel-system_2bbl'', UInt8Col [0, 0, 1, 0, 0]),
                (''fuel-system_mpfi'', UInt8Col [1, 1, 0, 1, 1]),
                (''num-of-doors_four'', UInt8Col [1, 0, 1, 1, 0]),
                (''num-of-doors_two'', UInt8Col [0, 0, 0, 0, 1])]\<rparr>,
      te = \<lparr>index = [8, 7, 6],
             columns =
               [(''horsepower'', FloatCol [Some 88, Some 95, Some 68]),
                (''price'', FloatCol [Some 10000, Some 10000, Some 10000]),
                (''fuel-system_2bbl'', UInt8Col [0, 0, 1]),
                (''fuel-system_mpfi'', UInt8Col [1, 1, 0]),
                (''num-of-doors_four'', UInt8Col [0, 1, 0]),
                (''num-of-doors_two'', UInt8Col [1, 0, 1])]\<rparr>,
      data_cat =
        \<lparr>index = [0, 1, 2, 3, 5, 6, 7, 8],
           columns =
             [(''horsepower'', FloatCol [Some 111, None, Some 154, Some 102, Some 110,
                 Some 68, Some 95, Some 88]),
              (''price'', FloatCol [Some 10000, Some 10000, Some 10000, Some 10000,
                 Some 10000, Some 10000, Some 10000, Some 10000]),
              (''fuel-system_2bbl'', UInt8Col [0, 0, 1, 0, 0, 1, 0, 0]),
              (''fuel-system_mpfi'', UInt8Col [1, 1, 0, 1, 1, 0, 1, 1]),
              (''num-of-doors_four'', UInt8Col [0, 1, 1, 0, 1, 0, 1, 0]),
              (''num-of-doors_two'', UInt8Col [1, 0, 0, 0, 0, 1, 0, 1])]\<rparr>\<rparr>"

text \<open>The arrays of the fit and score calls, the five splits of five rows and the table
  shown by cell 45.\<close>

definition Xn :: matrix where
  "Xn = [[Some 110], [Some 102], [Some 154], [None], [Some 111]]"

definition y5 :: "real list" where
  "y5 = [10000, 10000, 10000, 10000, 10000]"

definition Xc :: matrix where
  "Xc = [[Some 110, Some 0, Some 1, Some 1, Some 0],
         [Some 102, Some 0, Some 1, Some 0, Some 0],
         [Some 154, Some 1, Some 0, Some 1, Some 0],
         [None, Some 0, Some 1, Some 1, Some 0],
         [Some 111, Some 0, Some 1, Some 0, Some 1]]"

definition Xt :: matrix where
  "Xt = [[Some 88, Some 0, Some 1, Some 0, Some 1],
         [Some 95, Some 0, Some 1, Some 1, Some 0],
         [Some 68, Some 1, Some 0, Some 0, Some 1]]"

definition splits5 :: "(nat list \<times> nat list) list" where
  "splits5 = [([1, 2, 3, 4], [0]), ([0, 2, 3, 4], [1]), ([0, 1, 3, 4], [2]),
              ([0, 1, 2, 4], [3]), ([0, 1, 2, 3], [4])]"

definition table1 :: "performance list" where
  "table1 =
     [\<lparr>Experiment = ''Gradient boosting'', MAE_mean = 1000, MAE_std = 0\<rparr>,
      \<lparr>Experiment = ''Ridge cat'', MAE_mean = 5000, MAE_std = 0\<rparr>,
      \<lparr>Experiment = ''Ridge num'', MAE_mean = 9000, MAE_std = 0\<rparr>]"







section \<open>Exceptions and lists of results\<close>

lemma and_then_Inr_iff:
  "and_then m f = Inr z \<longleftrightarrow> (\<exists>x. m = Inr x \<and> f x = Inr z)"
  by (cases m) (simp_all add: and_then_def)

lemma not_isl_obtain:
  assumes "\<not> isl m"
  obtains x where "m = Inr x"
  using assms by (cases m) auto


lemma collect_all_Inr: "collect (map (\<lambda>x. Inr (g x)) xs) = Inr (map g xs)"
  by (induction xs) (simp_all add: and_then_def)

lemma collect_const: "collect (map (\<lambda>x. Inr v) xs) = Inr (replicate (length xs) v)"
  by (induction xs) (simp_all add: and_then_def)

section \<open>Frames: selection, cleaning, splitting, encoding\<close>

lemma col_isna_take: "i < length pos \<Longrightarrow> col_isna (col_take pos c) i = col_isna c (pos ! i)"
  by (cases c) simp_all

lemma index_take_rows: "index (take_rows pos df) = map ((!) (index df)) pos"
  by (simp add: take_rows_def)

lemma columns_take_rows:
  "columns (take_rows pos df) = map (\<lambda>(name, c). (name, col_take pos c)) (columns df)"
  by (simp add: take_rows_def)

lemma no_missing_dropna:
  assumes "dropna label raw = Inr d"
  shows "no_missing label d"
proof -
  define cs where "cs = [c. (name, c) \<leftarrow> columns raw, name = label]"
  define keep where "keep = [i \<leftarrow> [0..<length (index raw)]. \<forall>c \<in> set cs. \<not> col_isna c i]"
  from assms have d: "d = take_rows keep raw"
    by (simp add: dropna_def Let_def cs_def keep_def split: if_splits)
  show ?thesis
    unfolding no_missing_def
  proof (intro ballI, clarify)
    fix c i assume c: "(label, c) \<in> set (columns d)" and i: "i \<in> {0..<length (index d)}"
      and na: "col_isna c i"
    from c obtain c0 where c0: "(label, c0) \<in> set (columns raw)" and cc: "c = col_take keep c0"
      by (auto simp: d columns_take_rows)
    from i have ik: "i < length keep" by (simp add: d index_take_rows)
    from c0 have "c0 \<in> set cs" by (force simp: cs_def)
    moreover from ik have "keep ! i \<in> set keep" by simp
    ultimately have "\<not> col_isna c0 (keep ! i)" by (simp add: keep_def)
    with na cc ik show False by (simp add: col_isna_take)
  qed
qed

lemma no_missing_iloc:
  assumes "iloc pos d = Inr t" and "no_missing label d"
  shows "no_missing label t"
proof -
  from assms(1) have t: "t = take_rows pos d" and rng: "\<forall>p \<in> set pos. p < length (index d)"
    by (auto simp: iloc_def split: if_splits)
  show ?thesis
    unfolding no_missing_def
  proof (intro ballI, clarify)
    fix c i assume c: "(label, c) \<in> set (columns t)" and i: "i \<in> {0..<length (index t)}"
      and na: "col_isna c i"
    from c obtain c0 where c0: "(label, c0) \<in> set (columns d)" and cc: "c = col_take pos c0"
      by (auto simp: t columns_take_rows)
    from i have ik: "i < length pos" by (simp add: t index_take_rows)
    with rng have "pos ! i < length (index d)" by simp
    with assms(2) c0 have "\<not> col_isna c0 (pos ! i)" by (auto simp: no_missing_def)
    with na cc ik show False by (simp add: col_isna_take)
  qed
qed

lemma no_missing_split:
  assumes "train_test_split perm d t s = Inr (a, b)" and "no_missing label d"
  shows "no_missing label a \<and> no_missing label b"
  using assms
  by (auto simp: train_test_split_def and_then_def Let_def split: if_splits sum.splits
           intro: no_missing_iloc)

lemma no_missing_select_dtypes: "no_missing label d \<Longrightarrow> no_missing label (select_dtypes inc d)"
  by (auto simp: no_missing_def select_dtypes_def)

lemma dummies_of_uint8: "(name, c) \<in> set (dummies_of nc) \<Longrightarrow> dtype_of c = dt_uint8"
  by (cases nc rule: dummies_of.cases) (auto simp: dummies_def)

lemma no_missing_get_dummies: "no_missing label d \<Longrightarrow> no_missing label (get_dummies d)"
  unfolding no_missing_def get_dummies_def
  apply (auto dest!: dummies_of_uint8)
  subgoal for c i a b by (cases c) auto
  done

lemma index_split:
  assumes "train_test_split perm d t s = Inr (a, b)"
  shows "index a = map ((!) (index d)) (take (length (index d) - nat \<lceil>t * real (length (index d))\<rceil>)
                      (drop (nat \<lceil>t * real (length (index d))\<rceil>) (perm s (length (index d)))))"
    and "index b = map ((!) (index d)) (take (nat \<lceil>t * real (length (index d))\<rceil>) (perm s (length (index d))))"
  using assms
  by (auto simp: train_test_split_def and_then_def Let_def iloc_def index_take_rows
           split: if_splits sum.splits)

lemma index_get_dummies: "index (get_dummies d) = index d"
  by (simp add: get_dummies_def)

lemma index_select_dtypes: "index (select_dtypes inc d) = index d"
  by (simp add: select_dtypes_def)

lemma prepare_data_numeric:
  assumes "prepare_data perm raw = Inr ns"
  shows "\<forall>(name, c) \<in> set (columns (tr ns)). dtype_of c \<in> {dt_int64, dt_float64}"
  using assms
  by (auto simp: prepare_data_def and_then_Inr_iff select_dtypes_def)








lemma features_target_Inr:
  assumes "features_target t = Inr (X, y)"
  shows "''price'' \<notin> fst ` set (columns X)"
    and "columns X = [(name, c) \<leftarrow> columns t. name \<noteq> ''price'']"
    and "index X = index t"
    and "map_of (columns t) ''price'' = Some y"
  using assms
  by (auto simp: features_target_def drop_labels_def getattr_def and_then_def
           split: if_splits option.splits)

lemma arrays_Inr:
  assumes "arrays t = Inr (A, b)"
  shows "\<exists>X y. features_target t = Inr (X, y) \<and> to_matrix X = Inr A \<and> target y = Inr b"
  using assms by (auto simp: arrays_def and_then_Inr_iff)

lemma arrays_no_rows: "arrays t = Inr (X, y) \<Longrightarrow> index t = [] \<Longrightarrow> X = []"
  by (auto simp: arrays_def features_target_def drop_labels_def to_matrix_def and_then_Inr_iff
           split: if_splits)

section \<open>Splits and ranks\<close>







lemma argmin_rank_const: "0 < n \<Longrightarrow> argmin (rank_test_score (replicate n (v::real))) = 0"
proof -
  assume n: "0 < n"
  have r: "rank_test_score (replicate n v) = replicate n (Suc 0)"
    by (simp add: rank_test_score_def map_replicate_const)
  have s: "Min (set (replicate n (Suc 0))) = Suc 0" using n by simp
  have u: "[0..<n] = 0 # [Suc 0..<n]" using n by (simp add: upt_conv_Cons)
  have "[i \<leftarrow> [0..<n]. replicate n (Suc 0) ! i = Suc 0]
      = 0 # [i \<leftarrow> [Suc 0..<n]. replicate n (Suc 0) ! i = Suc 0]"
    using n by (subst u) simp
  with n show ?thesis
    unfolding r argmin_def s by simp
qed

section \<open>The searches\<close>


lemma BaseSearchCV_fit_intro:
  assumes "length X = length y"
    and "KFold_split (length X) cv = Inr splits"
    and "collect (map (\<lambda>p. collect (map (fit_and_score learn est X y p) splits)) cands) = Inr out"
    and "cands \<noteq> []"
    and "set_params est (cands ! argmin (rank_test_score (map average out))) = Inr est'"
    and "Pipeline_fit learn est' X y = Inr refitted"
  shows "BaseSearchCV_fit learn est cands cv X y =
     Inr \<lparr>params = cands,
          split_test_scores = out,
          mean_test_score = map average out,
          std_test_score = map weighted_std out,
          best_index = argmin (rank_test_score (map average out)),
          best_params = cands ! argmin (rank_test_score (map average out)),
          best_score = map average out ! argmin (rank_test_score (map average out)),
          best_estimator = refitted\<rparr>"
  using assms by (simp add: BaseSearchCV_fit_def and_then_def Let_def)

lemma ParameterGrid_ridge:
  "ParameterGrid ridge_grid = map (\<lambda>a. [(''rgs__alpha'', PFloat a)]) alpha_range"
  by (simp add: ParameterGrid_def ridge_grid_def alpha_range_def)

lemma set_params_ridge:
  "set_params ridge_pipeline [(''rgs__alpha'', PFloat a)] =
     Inr [(''imputer'', ImputerMedian), (''scaler'', StandardScaler), (''rgs'', Rgs (Ridge a))]"
  by (simp add: set_param_def ridge_pipeline_def and_then_def)

lemma length_alpha_range: "length alpha_range = 7"
  by (simp add: alpha_range_def)


lemma sorted_gb_grid:
  "sort_key fst gb_grid =
     [(''rgs__learning_rate'', choices (map PFloat learning_rate_vals)),
      (''rgs__max_depth'', max_depth_dist),
      (''rgs__max_features'', choices (map PFloat max_features_vals)),
      (''rgs__min_samples_leaf'', min_samples_leaf_dist)]"
  by (simp add: gb_grid_def less_eq_char_def less_char_def)

lemma enumerate4: "enumerate 0 [a, b, c, d] = [(0, a), (1, b), (2, c), (3, d)]"
  by (simp add: eval_nat_numeral)

lemma rvs_learning_rate:
  "rvs (choices (map PFloat learning_rate_vals)) r = Inr (PFloat (learning_rate_vals ! (r mod 4)))"
proof -
  have "length learning_rate_vals = 4" by (simp add: learning_rate_vals_def)
  then show ?thesis by (cases "learning_rate_vals = []") simp_all
qed

lemma rvs_max_features:
  "rvs (choices (map PFloat max_features_vals)) r = Inr (PFloat (max_features_vals ! (r mod 3)))"
proof -
  have "length max_features_vals = 3" by (simp add: max_features_vals_def)
  then show ?thesis by (cases "max_features_vals = []") simp_all
qed

lemma rvs_max_depth: "rvs max_depth_dist r = Inr (PInt (4 + int (r mod 2)))"
  by (simp add: max_depth_dist_def)

lemma rvs_min_samples_leaf: "rvs min_samples_leaf_dist r = Inr (PInt (3 + int (r mod 14)))"
  by (simp add: min_samples_leaf_dist_def)

lemma gb_point:
  "collect (map (\<lambda>(j, k, v). and_then (rvs v (draw s (it * 4 + j))) (\<lambda>x. Inr (k, x)))
                 (enumerate 0 (sort_key fst gb_grid))) = Inr
     [(''rgs__learning_rate'', PFloat (learning_rate_vals ! (draw s (it * 4) mod 4))),
      (''rgs__max_depth'', PInt (4 + int (draw s (it * 4 + 1) mod 2))),
      (''rgs__max_features'', PFloat (max_features_vals ! (draw s (it * 4 + 2) mod 3))),
      (''rgs__min_samples_leaf'', PInt (3 + int (draw s (it * 4 + 3) mod 14)))]"
  unfolding sorted_gb_grid enumerate4
  by (simp add: and_then_def rvs_learning_rate rvs_max_features rvs_max_depth rvs_min_samples_leaf
        del: rvs.simps)

lemma ParameterSampler_gb:
  "ParameterSampler perm draw gb_grid n s = Inr (map (\<lambda>it.
     [(''rgs__learning_rate'', PFloat (learning_rate_vals ! (draw s (it * 4) mod 4))),
      (''rgs__max_depth'', PInt (4 + int (draw s (it * 4 + 1) mod 2))),
      (''rgs__max_features'', PFloat (max_features_vals ! (draw s (it * 4 + 2) mod 3))),
      (''rgs__min_samples_leaf'', PInt (3 + int (draw s (it * 4 + 3) mod 14)))]) [0..<n])"
proof -
  have not_lists: "\<not> (\<forall>(k, v) \<in> set gb_grid. is_choices v)"
    by (simp add: gb_grid_def max_depth_dist_def)
  have len: "length (sort_key fst gb_grid) = 4"
    unfolding sorted_gb_grid by simp
  show ?thesis
    unfolding ParameterSampler_def
    by (simp only: not_lists if_False Let_def len gb_point collect_all_Inr)
qed

lemma set_params_gb:
  "set_params gb_pipeline
     [(''rgs__learning_rate'', PFloat lr), (''rgs__max_depth'', PInt d),
      (''rgs__max_features'', PFloat mf), (''rgs__min_samples_leaf'', PInt l)] =
   Inr [(''imputer'', ImputerMedian),
        (''rgs'', Rgs (GradientBoostingRegressor 3000 0 lr d l (Some (PFloat mf))))]"
  by (simp add: set_param_def gb_pipeline_def and_then_def random_state_def)




section \<open>Scoring and comparison\<close>

lemma transform_empty: "transform f [] = Inl ValueError"
  by (cases f) (simp_all add: imputer_transform_def scaler_transform_def all_finite_def and_then_def)

lemma Pipeline_predict_empty: "Pipeline_predict est [] = Inl ValueError"
  by (cases "transformers est")
     (simp_all add: Pipeline_predict_def all_finite_def and_then_def transform_empty)

lemma mean_absolute_error_nonneg: "mean_absolute_error y p = Inr m \<Longrightarrow> 0 \<le> m"
  by (auto simp: mean_absolute_error_def split: if_splits intro!: divide_nonneg_nonneg sum_list_nonneg)

lemma performance_row_Inr:
  "performance_row (name, gs) = Inr p \<Longrightarrow> Experiment p = name \<and> MAE_mean p = - best_score gs"
  by (auto simp: performance_row_def split: list.splits)

lemma performances_Inr:
  assumes "performances a b c = Inr table"
  shows "map Experiment table = [''Ridge num'', ''Gradient boosting'', ''Ridge cat'']"
    and "map MAE_mean table = [- best_score a, - best_score b, - best_score c]"
  using assms
  by (auto simp: performances_def and_then_Inr_iff dest!: performance_row_Inr)

lemma sort_values_sorted:
  "sorted (map MAE_mean (sort_values table))" "mset (sort_values table) = mset table"
  by (simp_all add: sort_values_def)

lemma performance_row_const:
  assumes "mean_test_score gs = replicate n v" and "std_test_score gs = replicate n s"
    and "best_score gs = v" and "0 < n"
  shows "performance_row (name, gs) = Inr \<lparr>Experiment = name, MAE_mean = - v, MAE_std = s\<rparr>"
proof -
  from assms(4) obtain m where "n = Suc m" by (cases n) auto
  with assms(1-3) show ?thesis
    by (simp add: performance_row_def)
qed

lemma notebook_Inr:
  assumes "notebook learn perm draw raw = Inr shown"
  shows "\<exists>ns ridge_gs gb_gs ns' ridge_cat_gs table mae.
           prepare_data perm raw = Inr ns \<and>
           ridge_search learn (tr ns) = Inr ridge_gs \<and>
           gb_search learn perm draw (tr ns) = Inr gb_gs \<and>
           include_categorical perm ns = Inr ns' \<and>
           ridge_search learn (tr ns') = Inr ridge_cat_gs \<and>
           performances ridge_gs gb_gs ridge_cat_gs = Inr table \<and>
           test_mae ridge_cat_gs (te ns') = Inr mae \<and>
           shown = (sort_values table, mae)"
  using assms unfolding notebook_def and_then_Inr_iff by blast

section \<open>What a split fits and scores\<close>








section \<open>The notebook on the small table\<close>

text \<open>Cells 2 to 38.\<close>

lemmas prep_simps = prepare_data_def include_categorical_def getattr_def getitem_def dropna_def
  take_rows_def
  train_test_split_def iloc_def select_dtypes_def get_dummies_def dummies_def levels_def
  and_then_def test_size_def random_state_def Let_def

lemma prepare_data_raw1: "prepare_data perm1 raw1 = Inr ns1"
  by (simp add: prep_simps raw1_def perm1_def ns1_def)

lemma include_categorical_ns1: "include_categorical perm1 ns1 = Inr ns1_cat"
  by (simp add: prep_simps perm1_def ns1_def ns1_cat_def)

lemmas arrays_simps = arrays_def features_target_def drop_labels_def getattr_def to_matrix_def
  target_def and_then_def

lemma arrays_tr_ns1: "arrays (tr ns1) = Inr (Xn, y5)"
  by (simp add: arrays_simps ns1_def Xn_def y5_def)

lemma arrays_tr_ns1_cat: "arrays (tr ns1_cat) = Inr (Xc, y5)"
  by (simp add: arrays_simps ns1_cat_def Xc_def y5_def)

lemma arrays_te_ns1_cat: "arrays (te ns1_cat) = Inr (Xt, [10000, 10000, 10000])"
  by (simp add: arrays_simps ns1_cat_def Xt_def)

lemma KFold_split_5: "KFold_split 5 5 = Inr splits5"
  by (simp add: KFold_split_def fold_sizes_def splits5_def upt_rec)

text \<open>The score of every candidate on every split, and the refits.\<close>

lemmas fit_simps = fit_and_score_def fold_fit_def set_param_def
  Pipeline_fit_def imputer_fit_def imputer_transform_def scaler_fit_def scaler_transform_def
  all_finite_def median_def mean_def std_def handle_zeros_in_scale_def feature_def
  neg_mean_absolute_error_def Pipeline_predict_def mean_absolute_error_def and_then_def Let_def

lemma ridge_num_folds:
  "map (fit_and_score learn1 ridge_pipeline Xn y5 [(''rgs__alpha'', PFloat a)]) splits5
     = map (\<lambda>s. Inr (- 9000, 1)) splits5"
  by (simp add: fit_simps splits5_def Xn_def y5_def learn1_def ridge_pipeline_def)

lemma ridge_num_refit:
  "\<not> isl (Pipeline_fit learn1
      [(''imputer'', ImputerMedian), (''scaler'', StandardScaler), (''rgs'', Rgs (Ridge a))]
      Xn y5)"
  by (simp add: fit_simps Xn_def y5_def learn1_def)

lemma gb_num_folds:
  "map (fit_and_score learn1 gb_pipeline Xn y5
          [(''rgs__learning_rate'', PFloat lr), (''rgs__max_depth'', PInt d),
           (''rgs__max_features'', PFloat mf), (''rgs__min_samples_leaf'', PInt l)]) splits5
     = map (\<lambda>s. Inr (- 1000, 1)) splits5"
  by (simp add: fit_simps splits5_def Xn_def y5_def learn1_def gb_pipeline_def)

lemma gb_num_refit:
  "\<not> isl (Pipeline_fit learn1
      [(''imputer'', ImputerMedian),
       (''rgs'', Rgs (GradientBoostingRegressor 3000 0 lr d l (Some (PFloat mf))))]
      Xn y5)"
  by (simp add: fit_simps Xn_def y5_def learn1_def)

lemma ridge_cat_folds:
  "map (fit_and_score learn1 ridge_pipeline Xc y5 [(''rgs__alpha'', PFloat a)]) splits5
     = map (\<lambda>s. Inr (- 5000, 1)) splits5"
  by (simp add: fit_simps splits5_def Xc_def y5_def learn1_def ridge_pipeline_def)

lemma ridge_cat_refit:
  "\<not> isl (Pipeline_fit learn1
      [(''imputer'', ImputerMedian), (''scaler'', StandardScaler), (''rgs'', Rgs (Ridge a))]
      Xc y5)"
  by (simp add: fit_simps Xc_def y5_def learn1_def)

lemma ridge_cat_score:
  "and_then (Pipeline_fit learn1
      [(''imputer'', ImputerMedian), (''scaler'', StandardScaler), (''rgs'', Rgs (Ridge a))]
      Xc y5) (\<lambda>p. neg_mean_absolute_error p Xt [10000, 10000, 10000]) = Inr (- 5000)"
  by (simp add: fit_simps Xc_def Xt_def y5_def learn1_def)

text \<open>A search in which every candidate scores the same on every split.\<close>

lemma replicate_5: "replicate 5 x = [x, x, x, x, x]"
  by (simp add: eval_nat_numeral)

lemma average_5: "average (replicate 5 (v, 1)) = v"
  by (simp add: average_def replicate_5)

lemma weighted_std_5: "weighted_std (replicate 5 (v, 1)) = 0"
  by (simp add: weighted_std_def average_def replicate_5)

lemma constant_search:
  assumes len: "length X = 5" "length y = 5"
    and cands: "cands \<noteq> []"
    and folds: "\<And>p. p \<in> set cands \<Longrightarrow>
        map (fit_and_score learn est X y p) splits5 = map (\<lambda>s. Inr (v, 1)) splits5"
    and refit: "set_params est (hd cands) = Inr est'" "Pipeline_fit learn est' X y = Inr refitted"
  shows "BaseSearchCV_fit learn est cands 5 X y =
     Inr \<lparr>params = cands,
          split_test_scores = replicate (length cands) (replicate 5 (v, 1)),
          mean_test_score = replicate (length cands) v,
          std_test_score = replicate (length cands) 0,
          best_index = 0,
          best_params = hd cands,
          best_score = v,
          best_estimator = refitted\<rparr>"
proof -
  let ?out = "replicate (length cands) (replicate 5 (v, 1))"
  have l5: "length splits5 = 5" by (simp add: splits5_def)
  have each: "collect (map (fit_and_score learn est X y p) splits5) = Inr (replicate 5 (v, 1))"
    if "p \<in> set cands" for p
    by (simp only: folds[OF that] collect_const l5)
  have "map (\<lambda>p. collect (map (fit_and_score learn est X y p) splits5)) cands
      = map (\<lambda>p. Inr (replicate 5 (v, 1))) cands"
    by (rule map_cong[OF refl]) (rule each)
  then have out: "collect (map (\<lambda>p. collect (map (fit_and_score learn est X y p) splits5)) cands)
      = Inr ?out"
    by (simp only: collect_const)
  have means: "map average ?out = replicate (length cands) v"
    by (simp only: map_replicate average_5)
  have stds: "map weighted_std ?out = replicate (length cands) 0"
    by (simp only: map_replicate weighted_std_5)
  have pos: "0 < length cands" using cands by simp
  have am: "argmin (rank_test_score (replicate (length cands) v)) = 0"
    by (rule argmin_rank_const[OF pos])
  have c0: "cands ! 0 = hd cands" using cands by (simp add: hd_conv_nth)
  have r0: "replicate (length cands) v ! 0 = v" using pos by simp
  have lxy: "length X = length y" by (simp add: len)
  have k: "KFold_split (length X) 5 = Inr splits5" by (simp add: len KFold_split_5)
  have sp: "set_params est (cands ! argmin (rank_test_score (map average ?out))) = Inr est'"
    unfolding means am c0 by (rule refit(1))
  from BaseSearchCV_fit_intro[OF lxy k out cands sp refit(2)]
  show ?thesis
    unfolding means stds am c0 r0 .
qed

lemma ridge_search_const:
  assumes arr: "arrays t = Inr (X, y5)"
    and len: "length X = 5"
    and folds: "\<And>a. map (fit_and_score learn1 ridge_pipeline X y5 [(''rgs__alpha'', PFloat a)]) splits5
                  = map (\<lambda>s. Inr (v, 1)) splits5"
    and refit: "Pipeline_fit learn1
      [(''imputer'', ImputerMedian), (''scaler'', StandardScaler), (''rgs'', Rgs (Ridge 10))]
      X y5 = Inr p"
  shows "ridge_search learn1 t =
     Inr \<lparr>params = map (\<lambda>a. [(''rgs__alpha'', PFloat a)]) alpha_range,
          split_test_scores = replicate 7 (replicate 5 (v, 1)),
          mean_test_score = replicate 7 v,
          std_test_score = replicate 7 0,
          best_index = 0,
          best_params = [(''rgs__alpha'', PFloat 10)],
          best_score = v,
          best_estimator = p\<rparr>"
proof -
  let ?cands = "map (\<lambda>a. [(''rgs__alpha'', PFloat a)]) alpha_range"
  have hd: "hd ?cands = [(''rgs__alpha'', PFloat 10)]" by (simp add: alpha_range_def)
  have ne: "?cands \<noteq> []" by (simp add: alpha_range_def)
  have l7: "length ?cands = 7" by (simp add: length_alpha_range)
  have ly: "length y5 = 5" by (simp add: y5_def)
  have f: "map (fit_and_score learn1 ridge_pipeline X y5 c) splits5 = map (\<lambda>s. Inr (v, 1)) splits5"
    if "c \<in> set ?cands" for c
    using that folds by auto
  have sp: "set_params ridge_pipeline (hd ?cands) =
      Inr [(''imputer'', ImputerMedian), (''scaler'', StandardScaler), (''rgs'', Rgs (Ridge 10))]"
    unfolding hd by (rule set_params_ridge)
  note constant_search[OF len ly ne f sp refit, unfolded l7 hd]
  then show ?thesis
    by (simp add: ridge_search_def arr and_then_def GridSearchCV_fit_def ParameterGrid_ridge)
qed

text \<open>The three searches, the table and the held-out error.\<close>

lemma ridge_num_run:
  obtains gs where "ridge_search learn1 (tr ns1) = Inr gs"
    and "mean_test_score gs = replicate 7 (- 9000)" and "std_test_score gs = replicate 7 0"
    and "best_score gs = - 9000" and "best_index gs = 0"
proof -
  from ridge_num_refit[of 10] obtain p where "Pipeline_fit learn1
      [(''imputer'', ImputerMedian), (''scaler'', StandardScaler), (''rgs'', Rgs (Ridge 10))]
      Xn y5 = Inr p"
    by (rule not_isl_obtain)
  from ridge_search_const[OF arrays_tr_ns1 _ ridge_num_folds this]
  have "ridge_search learn1 (tr ns1) =
     Inr \<lparr>params = map (\<lambda>a. [(''rgs__alpha'', PFloat a)]) alpha_range,
          split_test_scores = replicate 7 (replicate 5 (- 9000, 1)),
          mean_test_score = replicate 7 (- 9000),
          std_test_score = replicate 7 0,
          best_index = 0,
          best_params = [(''rgs__alpha'', PFloat 10)],
          best_score = - 9000,
          best_estimator = p\<rparr>"
    by (simp add: Xn_def)
  then show ?thesis by (rule that) simp_all
qed

lemma gb_run:
  obtains gs where "gb_search learn1 perm1 draw1 (tr ns1) = Inr gs"
    and "mean_test_score gs = replicate 20 (- 1000)" and "std_test_score gs = replicate 20 0"
    and "best_score gs = - 1000" and "best_index gs = 0"
proof -
  let ?point = "\<lambda>it.
     [(''rgs__learning_rate'', PFloat (learning_rate_vals ! (draw1 random_state (it * 4) mod 4))),
      (''rgs__max_depth'', PInt (4 + int (draw1 random_state (it * 4 + 1) mod 2))),
      (''rgs__max_features'', PFloat (max_features_vals ! (draw1 random_state (it * 4 + 2) mod 3))),
      (''rgs__min_samples_leaf'', PInt (3 + int (draw1 random_state (it * 4 + 3) mod 14)))]"
  let ?cands = "map ?point [0..<n_points]"
  have s: "ParameterSampler perm1 draw1 gb_grid n_points random_state = Inr ?cands"
    by (rule ParameterSampler_gb)
  have l20: "length ?cands = 20" by (simp add: n_points_def)
  then have ne: "?cands \<noteq> []" by auto
  have hd: "hd ?cands = ?point 0"
    by (simp add: n_points_def upt_rec[of 0])
  from gb_num_refit obtain p where p: "Pipeline_fit learn1
      [(''imputer'', ImputerMedian),
       (''rgs'', Rgs (GradientBoostingRegressor 3000 0
          (learning_rate_vals ! (draw1 random_state (0 * 4) mod 4))
          (4 + int (draw1 random_state (0 * 4 + 1) mod 2))
          (3 + int (draw1 random_state (0 * 4 + 3) mod 14))
          (Some (PFloat (max_features_vals ! (draw1 random_state (0 * 4 + 2) mod 3))))))]
      Xn y5 = Inr p"
    by (rule not_isl_obtain)
  have f: "map (fit_and_score learn1 gb_pipeline Xn y5 c) splits5 = map (\<lambda>s. Inr (- 1000, 1)) splits5"
    if "c \<in> set ?cands" for c
  proof -
    from that obtain it where "c = ?point it" by auto
    then show ?thesis by (simp only: gb_num_folds)
  qed
  have sp: "set_params gb_pipeline (hd ?cands) = Inr [(''imputer'', ImputerMedian),
       (''rgs'', Rgs (GradientBoostingRegressor 3000 0
          (learning_rate_vals ! (draw1 random_state (0 * 4) mod 4))
          (4 + int (draw1 random_state (0 * 4 + 1) mod 2))
          (3 + int (draw1 random_state (0 * 4 + 3) mod 14))
          (Some (PFloat (max_features_vals ! (draw1 random_state (0 * 4 + 2) mod 3))))))]"
    unfolding hd by (rule set_params_gb)
  have lx: "length Xn = 5" and ly: "length y5 = 5" by (simp_all add: Xn_def y5_def)
  note constant_search[OF lx ly ne f sp p, unfolded l20]
  then have "gb_search learn1 perm1 draw1 (tr ns1) =
     Inr \<lparr>params = ?cands,
          split_test_scores = replicate 20 (replicate 5 (- 1000, 1)),
          mean_test_score = replicate 20 (- 1000),
          std_test_score = replicate 20 0,
          best_index = 0,
          best_params = hd ?cands,
          best_score = - 1000,
          best_estimator = p\<rparr>"
    by (simp only: gb_search_def arrays_tr_ns1 and_then_def RandomizedSearchCV_fit_def s
          sum.case prod.case)
  then show ?thesis by (rule that) simp_all
qed

lemma ridge_cat_run:
  obtains gs where "ridge_search learn1 (tr ns1_cat) = Inr gs"
    and "mean_test_score gs = replicate 7 (- 5000)" and "std_test_score gs = replicate 7 0"
    and "best_score gs = - 5000" and "best_index gs = 0"
    and "test_mae gs (te ns1_cat) = Inr 5000"
proof -
  from ridge_cat_refit[of 10] obtain p where p: "Pipeline_fit learn1
      [(''imputer'', ImputerMedian), (''scaler'', StandardScaler), (''rgs'', Rgs (Ridge 10))]
      Xc y5 = Inr p"
    by (rule not_isl_obtain)
  from ridge_search_const[OF arrays_tr_ns1_cat _ ridge_cat_folds p]
  have s: "ridge_search learn1 (tr ns1_cat) =
     Inr \<lparr>params = map (\<lambda>a. [(''rgs__alpha'', PFloat a)]) alpha_range,
          split_test_scores = replicate 7 (replicate 5 (- 5000, 1)),
          mean_test_score = replicate 7 (- 5000),
          std_test_score = replicate 7 0,
          best_index = 0,
          best_params = [(''rgs__alpha'', PFloat 10)],
          best_score = - 5000,
          best_estimator = p\<rparr>"
    by (simp add: Xc_def)
  from ridge_cat_score[of 10] p
  have "neg_mean_absolute_error p Xt [10000, 10000, 10000] = Inr (- 5000)"
    by (simp add: and_then_def)
  then have "test_mae \<lparr>params = map (\<lambda>a. [(''rgs__alpha'', PFloat a)]) alpha_range,
          split_test_scores = replicate 7 (replicate 5 (- 5000, 1)),
          mean_test_score = replicate 7 (- 5000),
          std_test_score = replicate 7 0,
          best_index = 0,
          best_params = [(''rgs__alpha'', PFloat 10)],
          best_score = - 5000,
          best_estimator = p\<rparr> (te ns1_cat) = Inr 5000"
    by (simp add: test_mae_def arrays_te_ns1_cat score_def and_then_def)
  with s show ?thesis by (rule_tac that) simp_all
qed

lemma notebook_raw1: "notebook learn1 perm1 draw1 raw1 = Inr (table1, 5000)"
proof -
  obtain g1 where g1: "ridge_search learn1 (tr ns1) = Inr g1"
    and s1: "mean_test_score g1 = replicate 7 (- 9000)" "std_test_score g1 = replicate 7 0"
      "best_score g1 = - 9000"
    by (rule ridge_num_run)
  obtain g2 where g2: "gb_search learn1 perm1 draw1 (tr ns1) = Inr g2"
    and s2: "mean_test_score g2 = replicate 20 (- 1000)" "std_test_score g2 = replicate 20 0"
      "best_score g2 = - 1000"
    by (rule gb_run)
  obtain g3 where g3: "ridge_search learn1 (tr ns1_cat) = Inr g3"
    and s3: "mean_test_score g3 = replicate 7 (- 5000)" "std_test_score g3 = replicate 7 0"
      "best_score g3 = - 5000"
    and m3: "test_mae g3 (te ns1_cat) = Inr 5000"
    by (rule ridge_cat_run)
  have r1: "performance_row (''Ridge num'', g1)
               = Inr \<lparr>Experiment = ''Ridge num'', MAE_mean = - (- 9000), MAE_std = 0\<rparr>"
    by (rule performance_row_const[OF s1]) simp
  have r2: "performance_row (''Gradient boosting'', g2)
               = Inr \<lparr>Experiment = ''Gradient boosting'', MAE_mean = - (- 1000), MAE_std = 0\<rparr>"
    by (rule performance_row_const[OF s2]) simp
  have r3: "performance_row (''Ridge cat'', g3)
               = Inr \<lparr>Experiment = ''Ridge cat'', MAE_mean = - (- 5000), MAE_std = 0\<rparr>"
    by (rule performance_row_const[OF s3]) simp
  have table: "performances g1 g2 g3 =
      Inr [\<lparr>Experiment = ''Ridge num'', MAE_mean = 9000, MAE_std = 0\<rparr>,
           \<lparr>Experiment = ''Gradient boosting'', MAE_mean = 1000, MAE_std = 0\<rparr>,
           \<lparr>Experiment = ''Ridge cat'', MAE_mean = 5000, MAE_std = 0\<rparr>]"
    by (simp add: performances_def r1 r2 r3 and_then_def)
  have sorted: "sort_values
          [\<lparr>Experiment = ''Ridge num'', MAE_mean = 9000, MAE_std = 0\<rparr>,
           \<lparr>Experiment = ''Gradient boosting'', MAE_mean = 1000, MAE_std = 0\<rparr>,
           \<lparr>Experiment = ''Ridge cat'', MAE_mean = 5000, MAE_std = 0\<rparr>] = table1"
    by (simp add: sort_values_def table1_def)
  show ?thesis
    by (simp add: notebook_def prepare_data_raw1 g1 g2 include_categorical_ns1 g3 table m3
          sorted and_then_def)
qed














section \<open>The split is reproducible\<close>

text \<open>
  \<^bold>\<open>C1\<close>. With the seed \<open>random_state = 0\<close> and \<open>test_size = 0.33\<close> of cell 2,
  a second execution of cells 6 to 10 puts the same rows in the same partition (the
  generator seeded with \<open>random_state\<close> is a function of the seed and of the number
  of rows), and the split of the one-hot-encoded table in cell 38 puts every row, by its
  label, in the partition where the split of cell 8 put it.
\<close>

theorem split_reproducible:
  assumes "prepare_data perm raw = Inr ns"
    and "prepare_data perm raw = Inr again"
    and "include_categorical perm ns = Inr ns'"
  shows "index (tr again) = index (tr ns) \<and> index (te again) = index (te ns) \<and>
         index (tr ns') = index (tr ns) \<and> index (te ns') = index (te ns)"
proof -
  from assms(1) obtain d a b where d: "dropna ''price'' raw = Inr d"
    and s1: "train_test_split perm d test_size random_state = Inr (a, b)"
    and ns: "ns = \<lparr>data = d, tr = select_dtypes [dt_int64, dt_float64] a, te = b\<rparr>"
    by (auto simp: prepare_data_def and_then_def split: sum.splits)
  from assms(3) obtain a' b' where
    s2: "train_test_split perm (get_dummies d) test_size random_state = Inr (a', b')"
    and ns': "tr ns' = a'" "te ns' = b'"
    by (auto simp: include_categorical_def and_then_def Let_def ns split: sum.splits)
  from assms(1,2) have "again = ns" by simp
  moreover have "index a' = index a" "index b' = index b"
    using index_split[OF s1] index_split[OF s2] by (simp_all add: index_get_dummies)
  ultimately show ?thesis
    by (simp add: ns ns' index_select_dtypes)
qed

theorem split_reproducible_witness:
  "prepare_data perm1 raw1 = Inr ns1 \<and> include_categorical perm1 ns1 = Inr ns1_cat \<and>
   index (tr ns1_cat) = index (tr ns1) \<and> index (te ns1_cat) = index (te ns1) \<and>
   index (tr ns1) = [5, 3, 2, 1, 0] \<and> index (te ns1) = [8, 7, 6]"
  using split_reproducible[OF prepare_data_raw1 prepare_data_raw1 include_categorical_ns1]
    prepare_data_raw1 include_categorical_ns1
  by (simp add: ns1_def)

section \<open>Preprocessing statistics of a fold\<close>



section \<open>The ridge search selects the best candidate\<close>




section \<open>One-hot encoding\<close>




section \<open>No row without a price in a partition\<close>

text \<open>
  \<^bold>\<open>C5\<close>. After the cleaning of cell 6, neither the training partition nor the
  held-out partition has a row with a missing \<open>price\<close>, in the numeric-only variant
  (cells 8 and 10) and in the one-hot-encoded variant (cell 38).
\<close>

theorem no_missing_price:
  assumes "prepare_data perm raw = Inr ns" and "include_categorical perm ns = Inr ns'"
  shows "no_missing ''price'' (tr ns) \<and> no_missing ''price'' (te ns) \<and>
         no_missing ''price'' (tr ns') \<and> no_missing ''price'' (te ns')"
proof -
  from assms(1) obtain d a b where d: "dropna ''price'' raw = Inr d"
    and s1: "train_test_split perm d test_size random_state = Inr (a, b)"
    and ns: "ns = \<lparr>data = d, tr = select_dtypes [dt_int64, dt_float64] a, te = b\<rparr>"
    by (auto simp: prepare_data_def and_then_def split: sum.splits)
  from assms(2) obtain a' b' where
    s2: "train_test_split perm (get_dummies d) test_size random_state = Inr (a', b')"
    and ns': "tr ns' = a'" "te ns' = b'"
    by (auto simp: include_categorical_def and_then_def Let_def ns split: sum.splits)
  have nd: "no_missing ''price'' d" using d by (rule no_missing_dropna)
  from no_missing_split[OF s1 nd] no_missing_split[OF s2 no_missing_get_dummies[OF nd]]
  show ?thesis by (simp add: ns ns' no_missing_select_dtypes)
qed

theorem no_missing_price_witness:
  "prepare_data perm1 raw1 = Inr ns1 \<and> include_categorical perm1 ns1 = Inr ns1_cat \<and>
   no_missing ''price'' (tr ns1) \<and> no_missing ''price'' (te ns1) \<and>
   no_missing ''price'' (tr ns1_cat) \<and> no_missing ''price'' (te ns1_cat) \<and>
   \<not> no_missing ''price'' raw1"
proof -
  have "col_isna (FloatCol [Some 10000, Some 10000, Some 10000, Some 10000, None,
                 Some 10000, Some 10000, Some 10000, Some 10000]) 4"
    by simp
  then have "\<not> no_missing ''price'' raw1"
    by (auto simp: no_missing_def raw1_def intro!: bexI[of _ 4])
  with no_missing_price[OF prepare_data_raw1 include_categorical_ns1]
    prepare_data_raw1 include_categorical_ns1
  show ?thesis by blast
qed

section \<open>The held-out error\<close>

text \<open>
  \<^bold>\<open>C6\<close>. The number cell 47 prints, the negated score of the refitted pipeline on
  the held-out partition, is never negative; and on a held-out partition without rows
  cell 47 raises instead of printing a number.
\<close>

theorem test_mae_nonnegative_or_fails:
  "(test_mae gs t = Inr v \<longrightarrow> 0 \<le> v) \<and> (index t = [] \<longrightarrow> (\<exists>e. test_mae gs t = Inl e))"
proof (intro conjI impI)
  assume "test_mae gs t = Inr v"
  then obtain X y y_pred mae where "mean_absolute_error y y_pred = Inr mae" and "v = mae"
    by (auto simp: test_mae_def score_def neg_mean_absolute_error_def and_then_Inr_iff)
  then show "0 \<le> v"
    by (simp add: mean_absolute_error_nonneg)
next
  assume empty: "index t = []"
  show "\<exists>e. test_mae gs t = Inl e"
  proof (cases "arrays t")
    case (Inl e)
    then show ?thesis by (simp add: test_mae_def and_then_def)
  next
    case (Inr Xy)
    obtain X y where Xy: "Xy = (X, y)" by (cases Xy)
    with Inr empty have "X = []" by (simp add: arrays_no_rows)
    with Inr Xy show ?thesis
      by (simp add: test_mae_def score_def neg_mean_absolute_error_def and_then_def
            Pipeline_predict_empty)
  qed
qed

theorem test_mae_nonnegative_or_fails_witness:
  "\<exists>gs. test_mae gs (te ns1_cat) = Inr 5000 \<and> (0::real) \<le> 5000 \<and>
        (\<exists>e. test_mae gs \<lparr>index = [], columns = [(''price'', FloatCol [])]\<rparr> = Inl e)"
proof -
  obtain gs where m: "test_mae gs (te ns1_cat) = Inr 5000"
    by (rule ridge_cat_run)
  from test_mae_nonnegative_or_fails[of gs "te ns1_cat" 5000] m
  have nonneg: "(0::real) \<le> 5000" by blast
  have "index \<lparr>index = [], columns = [(''price'', FloatCol [])]\<rparr> = []" by simp
  with test_mae_nonnegative_or_fails[of gs "\<lparr>index = [], columns = [(''price'', FloatCol [])]\<rparr>"]
  have "\<exists>e. test_mae gs \<lparr>index = [], columns = [(''price'', FloatCol [])]\<rparr> = Inl e"
    by blast
  with m nonneg show ?thesis by blast
qed

section \<open>The comparison table\<close>

text \<open>
  \<^bold>\<open>C7\<close>. When the notebook runs to its end, the table of cell 44 has exactly three
  rows: \<open>Ridge num\<close>, the ridge search on the numeric columns of the training
  partition; \<open>Gradient boosting\<close>, the randomized search on the same columns; and
  \<open>Ridge cat\<close>, the ridge search on the training partition of the encoded table. Each
  row holds the mean cross-validated MAE of the best candidate of its search, and cell 45
  shows the three rows in ascending order of it.
\<close>

theorem comparison_table:
  assumes "notebook learn perm draw raw = Inr (shown, mae)"
  shows "\<exists>ns ns' ridge_gs gb_gs ridge_cat_gs table.
           prepare_data perm raw = Inr ns \<and>
           include_categorical perm ns = Inr ns' \<and>
           (\<forall>(name, c) \<in> set (columns (tr ns)). dtype_of c \<in> {dt_int64, dt_float64}) \<and>
           ridge_search learn (tr ns) = Inr ridge_gs \<and>
           gb_search learn perm draw (tr ns) = Inr gb_gs \<and>
           ridge_search learn (tr ns') = Inr ridge_cat_gs \<and>
           map Experiment table = [''Ridge num'', ''Gradient boosting'', ''Ridge cat''] \<and>
           map MAE_mean table = [- best_score ridge_gs, - best_score gb_gs, - best_score ridge_cat_gs] \<and>
           shown = sort_values table \<and>
           length shown = 3 \<and>
           mset shown = mset table \<and>
           sorted (map MAE_mean shown)"
proof -
  from notebook_Inr[OF assms] obtain ns ridge_gs gb_gs ns' ridge_cat_gs table where
    run: "prepare_data perm raw = Inr ns" "ridge_search learn (tr ns) = Inr ridge_gs"
      "gb_search learn perm draw (tr ns) = Inr gb_gs" "include_categorical perm ns = Inr ns'"
      "ridge_search learn (tr ns') = Inr ridge_cat_gs"
    and table: "performances ridge_gs gb_gs ridge_cat_gs = Inr table"
    and shown: "shown = sort_values table"
    by auto
  note rows = performances_Inr[OF table]
  have "length table = 3" using rows(1) by (metis length_map length_Cons list.size(3) numeral_3_eq_3)
  then have len: "length shown = 3" by (simp add: shown sort_values_def)
  have ms: "mset shown = mset table" and so: "sorted (map MAE_mean shown)"
    by (simp_all add: shown sort_values_sorted)
  note num = prepare_data_numeric[OF run(1)]
  show ?thesis
    apply (rule exI[of _ ns], rule exI[of _ ns'], rule exI[of _ ridge_gs], rule exI[of _ gb_gs],
           rule exI[of _ ridge_cat_gs], rule exI[of _ table])
    apply (intro conjI)
    apply (rule run num rows shown len ms so)+
    done
qed

theorem comparison_table_witness:
  "notebook learn1 perm1 draw1 raw1 = Inr (table1, 5000) \<and>
   length table1 = 3 \<and> sorted (map MAE_mean table1) \<and>
   map Experiment table1 = [''Gradient boosting'', ''Ridge cat'', ''Ridge num'']"
proof -
  from comparison_table[OF notebook_raw1]
  have "length table1 = 3" and "sorted (map MAE_mean table1)"
    by blast+
  moreover have "map Experiment table1 = [''Gradient boosting'', ''Ridge cat'', ''Ridge num'']"
    by (simp add: table1_def)
  ultimately show ?thesis using notebook_raw1 by blast
qed

section \<open>The search space of the gradient boosting regressor\<close>



section \<open>The target is never a feature\<close>

text \<open>
  \<^bold>\<open>C9\<close>. In a run of the notebook, the three \<open>fit\<close> calls (cells 22, 29 and 41)
  and the \<open>score\<close> call (cell 47) are given a feature frame without a column
  \<open>price\<close> and, as target, the column \<open>price\<close> of the same partition.
\<close>

theorem price_is_target_never_feature:
  assumes "notebook learn perm draw raw = Inr (shown, mae)"
  shows "\<exists>ns ns' ridge_gs gb_gs ridge_cat_gs Xn yn Xc yc Xt yt.
           prepare_data perm raw = Inr ns \<and>
           include_categorical perm ns = Inr ns' \<and>
           features_target (tr ns) = Inr (Xn, yn) \<and>
           features_target (tr ns') = Inr (Xc, yc) \<and>
           features_target (te ns') = Inr (Xt, yt) \<and>
           ''price'' \<notin> fst ` set (columns Xn) \<and>
           ''price'' \<notin> fst ` set (columns Xc) \<and>
           ''price'' \<notin> fst ` set (columns Xt) \<and>
           map_of (columns (tr ns)) ''price'' = Some yn \<and>
           map_of (columns (tr ns')) ''price'' = Some yc \<and>
           map_of (columns (te ns')) ''price'' = Some yt \<and>
           (\<exists>A b. to_matrix Xn = Inr A \<and> target yn = Inr b \<and>
                  GridSearchCV_fit learn ridge_pipeline ridge_grid 5 A b = Inr ridge_gs \<and>
                  RandomizedSearchCV_fit learn perm draw gb_pipeline gb_grid n_points
                    random_state 5 A b = Inr gb_gs) \<and>
           (\<exists>A b. to_matrix Xc = Inr A \<and> target yc = Inr b \<and>
                  GridSearchCV_fit learn ridge_pipeline ridge_grid 5 A b = Inr ridge_cat_gs) \<and>
           (\<exists>A b s. to_matrix Xt = Inr A \<and> target yt = Inr b \<and>
                  score ridge_cat_gs A b = Inr s \<and> mae = - s)"
proof -
  from notebook_Inr[OF assms] obtain ns ridge_gs gb_gs ns' ridge_cat_gs where
    run: "prepare_data perm raw = Inr ns" "include_categorical perm ns = Inr ns'"
    and f1: "ridge_search learn (tr ns) = Inr ridge_gs"
    and f2: "gb_search learn perm draw (tr ns) = Inr gb_gs"
    and f3: "ridge_search learn (tr ns') = Inr ridge_cat_gs"
    and sc: "test_mae ridge_cat_gs (te ns') = Inr mae"
    by auto
  from f1 obtain An bn where an: "arrays (tr ns) = Inr (An, bn)"
    and g1: "GridSearchCV_fit learn ridge_pipeline ridge_grid 5 An bn = Inr ridge_gs"
    by (auto simp: ridge_search_def and_then_Inr_iff)
  from f2 an have g2: "RandomizedSearchCV_fit learn perm draw gb_pipeline gb_grid n_points
                    random_state 5 An bn = Inr gb_gs"
    by (simp add: gb_search_def and_then_def)
  from f3 obtain Ac bc where ac: "arrays (tr ns') = Inr (Ac, bc)"
    and g3: "GridSearchCV_fit learn ridge_pipeline ridge_grid 5 Ac bc = Inr ridge_cat_gs"
    by (auto simp: ridge_search_def and_then_Inr_iff)
  from sc obtain At bt s where at: "arrays (te ns') = Inr (At, bt)"
    and g4: "score ridge_cat_gs At bt = Inr s" "mae = - s"
    by (auto simp: test_mae_def and_then_Inr_iff)
  from arrays_Inr[OF an] obtain Xn yn where n: "features_target (tr ns) = Inr (Xn, yn)"
    "to_matrix Xn = Inr An" "target yn = Inr bn" by blast
  from arrays_Inr[OF ac] obtain Xc yc where c: "features_target (tr ns') = Inr (Xc, yc)"
    "to_matrix Xc = Inr Ac" "target yc = Inr bc" by blast
  from arrays_Inr[OF at] obtain Xt yt where t: "features_target (te ns') = Inr (Xt, yt)"
    "to_matrix Xt = Inr At" "target yt = Inr bt" by blast
  note pn = features_target_Inr[OF n(1)]
  note pc = features_target_Inr[OF c(1)]
  note pt = features_target_Inr[OF t(1)]
  have cn: "\<exists>A b. to_matrix Xn = Inr A \<and> target yn = Inr b \<and>
                  GridSearchCV_fit learn ridge_pipeline ridge_grid 5 A b = Inr ridge_gs \<and>
                  RandomizedSearchCV_fit learn perm draw gb_pipeline gb_grid n_points
                    random_state 5 A b = Inr gb_gs"
    using n g1 g2 by blast
  have cc: "\<exists>A b. to_matrix Xc = Inr A \<and> target yc = Inr b \<and>
                  GridSearchCV_fit learn ridge_pipeline ridge_grid 5 A b = Inr ridge_cat_gs"
    using c g3 by blast
  have ct: "\<exists>A b s. to_matrix Xt = Inr A \<and> target yt = Inr b \<and>
                  score ridge_cat_gs A b = Inr s \<and> mae = - s"
    using t g4 by blast
  show ?thesis
    apply (rule exI[of _ ns], rule exI[of _ ns'], rule exI[of _ ridge_gs], rule exI[of _ gb_gs],
           rule exI[of _ ridge_cat_gs], rule exI[of _ Xn], rule exI[of _ yn], rule exI[of _ Xc],
           rule exI[of _ yc], rule exI[of _ Xt], rule exI[of _ yt])
    apply (intro conjI)
    apply (rule run(1) run(2) n(1) c(1) t(1) pn(1) pc(1) pt(1) pn(4) pc(4) pt(4) cn cc ct)+
    done
qed

theorem price_is_target_never_feature_witness:
  "notebook learn1 perm1 draw1 raw1 = Inr (table1, 5000) \<and>
   (\<exists>X y. features_target (tr ns1) = Inr (X, y) \<and> ''price'' \<notin> fst ` set (columns X) \<and>
          map_of (columns (tr ns1)) ''price'' = Some y)"
proof -
  from price_is_target_never_feature[OF notebook_raw1]
  obtain ns X y where "prepare_data perm1 raw1 = Inr ns"
    and f: "features_target (tr ns) = Inr (X, y)" "''price'' \<notin> fst ` set (columns X)"
      "map_of (columns (tr ns)) ''price'' = Some y"
    by blast
  then have "ns = ns1" by (simp add: prepare_data_raw1)
  with f notebook_raw1 show ?thesis by blast
qed

section \<open>Encoding leaves the numeric columns alone\<close>

text \<open>
  \<^bold>\<open>C10\<close>. Cell 10 rebinds \<open>tr\<close> only, so cell 32 encodes the cleaned table of
  cell 6. The encoded table has the same rows, its first columns are the non-object
  columns of the cleaned table (\<open>price\<close> among them when it is numeric) with the
  same values in every row, and all the columns after them are indicator columns.
\<close>

theorem encoding_keeps_numeric_columns:
  assumes "prepare_data perm raw = Inr ns" and "include_categorical perm ns = Inr ns'"
  shows "dropna ''price'' raw = Inr (data ns) \<and>
         data ns' = data ns \<and>
         data_cat ns' = get_dummies (data ns) \<and>
         index (data_cat ns') = index (data ns) \<and>
         (let numeric = [(name, c) \<leftarrow> columns (data ns). dtype_of c \<noteq> dt_object] in
            take (length numeric) (columns (data_cat ns')) = numeric \<and>
            (\<forall>(name, c) \<in> set (drop (length numeric) (columns (data_cat ns'))).
               dtype_of c = dt_uint8))"
proof -
  from assms(1) have d: "dropna ''price'' raw = Inr (data ns)"
    by (auto simp: prepare_data_def and_then_def split: sum.splits)
  from assms(2) have c: "data ns' = data ns" "data_cat ns' = get_dummies (data ns)"
    by (auto simp: include_categorical_def and_then_def Let_def split: sum.splits)
  have "\<forall>(name, c) \<in> set (concat (map dummies_of (columns (data ns)))). dtype_of c = dt_uint8"
    by (auto dest: dummies_of_uint8)
  with d c show ?thesis
    by (simp add: Let_def index_get_dummies) (simp add: get_dummies_def)
qed

theorem encoding_keeps_numeric_columns_witness:
  "prepare_data perm1 raw1 = Inr ns1 \<and> include_categorical perm1 ns1 = Inr ns1_cat \<and>
   data ns1_cat = data ns1 \<and>
   take 2 (columns (data_cat ns1_cat)) =
     [(''horsepower'', FloatCol [Some 111, None, Some 154, Some 102, Some 110,
         Some 68, Some 95, Some 88]),
      (''price'', FloatCol [Some 10000, Some 10000, Some 10000, Some 10000,
         Some 10000, Some 10000, Some 10000, Some 10000])]"
proof -
  have numeric: "[(name, c) \<leftarrow> columns (data ns1). dtype_of c \<noteq> dt_object] =
      [(''horsepower'', FloatCol [Some 111, None, Some 154, Some 102, Some 110,
          Some 68, Some 95, Some 88]),
       (''price'', FloatCol [Some 10000, Some 10000, Some 10000, Some 10000,
          Some 10000, Some 10000, Some 10000, Some 10000])]"
    by (simp add: ns1_def)
  note enc = encoding_keeps_numeric_columns[OF prepare_data_raw1 include_categorical_ns1]
  from enc have same: "data ns1_cat = data ns1"
    by blast
  from enc have "let numeric = [(name, c) \<leftarrow> columns (data ns1). dtype_of c \<noteq> dt_object] in
      take (length numeric) (columns (data_cat ns1_cat)) = numeric \<and>
      (\<forall>(name, c) \<in> set (drop (length numeric) (columns (data_cat ns1_cat))).
         dtype_of c = dt_uint8)"
    by blast
  with numeric have "take 2 (columns (data_cat ns1_cat)) =
      [(''horsepower'', FloatCol [Some 111, None, Some 154, Some 102, Some 110,
          Some 68, Some 95, Some 88]),
       (''price'', FloatCol [Some 10000, Some 10000, Some 10000, Some 10000,
          Some 10000, Some 10000, Some 10000, Some 10000])]"
    by (simp add: Let_def numeral_2_eq_2)
  with same prepare_data_raw1 include_categorical_ns1 show ?thesis by blast
qed

end
